theory Spec2Isabelle
  imports Complex_Main
begin

section \<open>Conventions of the embedding\<close>

text \<open>
  The repository holds three JavaScript programs: the gesture estimator
  (\<^verbatim>\<open>docs/js/gestureDetector.js\<close>, class \<^verbatim>\<open>GestureDetector\<close>), the particle engine
  (class \<^verbatim>\<open>ParticleSystem\<close>) and an older, simpler page script with a binary open/closed
  classifier.

  JavaScript numbers are modelled as the real numbers: rounding to IEEE doubles (and to
  single precision inside a \<^verbatim>\<open>Float32Array\<close>) is not modelled.  The two values of a
  JavaScript number that are no real number are written out where the code can produce
  them from real inputs: a read outside an array gives \<^verbatim>\<open>undefined\<close>, which arithmetic
  turns into \<^verbatim>\<open>NaN\<close>, and \<^verbatim>\<open>0 / 0\<close> is \<^verbatim>\<open>NaN\<close>.  The JavaScript goes on computing with
  such a value; the model stops there with the outcome \<open>Inl NotANumber\<close>.  A property
  access on \<^verbatim>\<open>undefined\<close> throws; that is the outcome \<open>Inl TypeError\<close>.
\<close>

datatype error = TypeError | NotANumber

subsection \<open>Loops\<close>

text \<open>
  \<^verbatim>\<open>for (let i = 0; i < n; i++) body\<close>, the loop state passed along; an error ends it.
\<close>

primrec for_loop :: "nat \<Rightarrow> (nat \<Rightarrow> 's \<Rightarrow> error + 's) \<Rightarrow> 's \<Rightarrow> error + 's" where
  "for_loop 0 body s = Inr s"
| "for_loop (Suc n) body s =
     (case for_loop n body s of Inl e \<Rightarrow> Inl e | Inr s' \<Rightarrow> body n s')"

text \<open>
  \<^verbatim>\<open>for\<close> loops whose body cannot fail.
\<close>

primrec for_each :: "nat \<Rightarrow> (nat \<Rightarrow> 's \<Rightarrow> 's) \<Rightarrow> 's \<Rightarrow> 's" where
  "for_each 0 body s = s"
| "for_each (Suc n) body s = body n (for_each n body s)"

subsection \<open>Arrays\<close>

text \<open>
  Reading \<^verbatim>\<open>a[i]\<close>: outside the array the value is \<^verbatim>\<open>undefined\<close>.
\<close>

definition js_read :: "real list \<Rightarrow> nat \<Rightarrow> error + real" where
  "js_read xs i = (if i < length xs then Inr (xs ! i) else Inl NotANumber)"

text \<open>
  Storing into a \<^verbatim>\<open>Float32Array\<close>: a store outside the array is ignored, whatever the
  value; inside it, the value has to be a number of the model.
\<close>

definition f32_store :: "real list \<Rightarrow> nat \<Rightarrow> error + real \<Rightarrow> error + real list" where
  "f32_store xs i v =
     (if i < length xs then (case v of Inl e \<Rightarrow> Inl e | Inr x \<Rightarrow> Inr (xs[i := x])) else Inr xs)"

text \<open>
  Storing into a plain array: at the end it appends; further out it would leave holes
  that read as \<^verbatim>\<open>undefined\<close>.
\<close>

definition js_write :: "real list \<Rightarrow> nat \<Rightarrow> real \<Rightarrow> error + real list" where
  "js_write xs i v =
     (if i < length xs then Inr (xs[i := v])
      else if i = length xs then Inr (xs @ [v])
      else Inl NotANumber)"

text \<open>
  Sequencing: the next statement runs on the value of the one before, unless that one
  ended the run; and a product \<^verbatim>\<open>a[i] * c\<close> of a value read.
\<close>

definition and_then :: "error + 'a \<Rightarrow> ('a \<Rightarrow> error + 'b) \<Rightarrow> error + 'b" where
  "and_then m f = (case m of Inl e \<Rightarrow> Inl e | Inr a \<Rightarrow> f a)"

definition scaled :: "error + real \<Rightarrow> real \<Rightarrow> error + real" where
  "scaled m c = (case m of Inl e \<Rightarrow> Inl e | Inr a \<Rightarrow> Inr (a * c))"

text \<open>
  The compound assignment \<^verbatim>\<open>a[i] += e\<close> on a \<^verbatim>\<open>Float32Array\<close>, \<open>e\<close> given the old
  value: outside the array nothing is stored.
\<close>

definition f32_add :: "real list \<Rightarrow> nat \<Rightarrow> (real \<Rightarrow> error + real) \<Rightarrow> error + real list" where
  "f32_add xs i e =
     (if i < length xs
      then (case e (xs ! i) of Inl er \<Rightarrow> Inl er | Inr dv \<Rightarrow> Inr (xs[i := xs ! i + dv]))
      else Inr xs)"

section \<open>The gesture estimator (GestureDetector)\<close>

text \<open>\<^verbatim>\<open>lerp(a, b, t) { return a + (b - a) * t; }\<close>\<close>

definition lerp :: "real \<Rightarrow> real \<Rightarrow> real \<Rightarrow> real" where
  "lerp a b t = a + (b - a) * t"

text \<open>
  A landmark is an object \<^verbatim>\<open>{x, y, z}\<close>; the estimator reads \<^verbatim>\<open>z\<close> as \<^verbatim>\<open>(p.z || 0)\<close>, so
  a landmark without \<^verbatim>\<open>z\<close> counts as \<^verbatim>\<open>z = 0\<close>.
\<close>

record landmark =
  lm_x :: real
  lm_y :: real
  lm_z :: "real option"

record point2 =
  pt_x :: real
  pt_y :: real

definition z_or_0 :: "landmark \<Rightarrow> real" where
  "z_or_0 p = (case lm_z p of None \<Rightarrow> 0 | Some z \<Rightarrow> z)"

definition distance :: "landmark \<Rightarrow> landmark \<Rightarrow> real" where
  "distance p1 p2 =
     (let dx = lm_x p1 - lm_x p2;
          dy = lm_y p1 - lm_y p2;
          dz = z_or_0 p1 - z_or_0 p2
      in sqrt (dx * dx + dy * dy + dz * dz))"

text \<open>The object \<^verbatim>\<open>{openness, position}\<close> that \<^verbatim>\<open>analyzeGesture\<close> returns.\<close>

record raw_gesture =
  raw_openness :: real
  raw_position :: point2

definition WRIST :: nat where "WRIST = 0"

definition fingerTips :: "nat list" where
  "fingerTips = [4, 8, 12, 16, 20]"

definition fingerMCPs :: "nat list" where
  "fingerMCPs = [1, 5, 9, 13, 17]"

text \<open>
  \<^verbatim>\<open>Math.min(tipToMCP / (mcpToWrist * 1.5), 1)\<close>.  With a zero divisor JavaScript gives
  \<^verbatim>\<open>+Infinity\<close> for a positive dividend, of which the minimum with 1 is 1, and \<^verbatim>\<open>NaN\<close> for
  \<^verbatim>\<open>0 / 0\<close>.
\<close>

definition extension :: "landmark list \<Rightarrow> nat \<Rightarrow> nat \<Rightarrow> error + real" where
  "extension landmarks tipIndex mcpIndex =
     (let tipToMCP = distance (landmarks ! tipIndex) (landmarks ! mcpIndex);
          mcpToWrist = distance (landmarks ! mcpIndex) (landmarks ! WRIST)
      in if mcpToWrist * 1.5 = 0
         then (if tipToMCP = 0 then Inl NotANumber else Inr 1)
         else Inr (min (tipToMCP / (mcpToWrist * 1.5)) 1))"

text \<open>
  \<^verbatim>\<open>analyzeGesture(landmarks)\<close>.  The indices read are at most 20; on a shorter array
  \<^verbatim>\<open>landmarks[20]\<close> is \<^verbatim>\<open>undefined\<close> and \<^verbatim>\<open>distance\<close> throws on its \<^verbatim>\<open>.x\<close>.
\<close>

definition analyzeGesture :: "landmark list \<Rightarrow> error + raw_gesture" where
  "analyzeGesture landmarks =
     (if length landmarks < 21 then Inl TypeError
      else
        let palmCenter =
              \<lparr> pt_x = (lm_x (landmarks ! WRIST) + lm_x (landmarks ! 5) + lm_x (landmarks ! 17)) / 3,
                pt_y = (lm_y (landmarks ! WRIST) + lm_y (landmarks ! 5) + lm_y (landmarks ! 17)) / 3 \<rparr>
        in case for_loop (length fingerTips)
                  (\<lambda>i totalExtension.
                     case extension landmarks (fingerTips ! i) (fingerMCPs ! i) of
                       Inl e \<Rightarrow> Inl e
                     | Inr ext \<Rightarrow> Inr (totalExtension + ext))
                  0 of
             Inl e \<Rightarrow> Inl e
           | Inr totalExtension \<Rightarrow>
               let opn = (totalExtension / real (length fingerTips)) powr 0.8
               in Inr \<lparr> raw_openness = max 0 (min 1 opn), raw_position = palmCenter \<rparr>)"

text \<open>The gesture state \<^verbatim>\<open>currentGesture\<close>.\<close>

record gesture =
  openness :: real
  position :: point2
  isDetected :: bool
  confidence :: real

text \<open>
  The fields of a \<^verbatim>\<open>GestureDetector\<close> that the estimation reads or writes.  The three
  callbacks are modelled by whether one is registered; calling one is an event of the
  frame.  \<^verbatim>\<open>wasHandDetected\<close> is not set by the constructor: it starts \<^verbatim>\<open>undefined\<close>, which
  the two tests read as false.
\<close>

record gesture_detector =
  showTracking :: bool
  sensitivity :: real
  currentGesture :: gesture
  onGestureUpdate :: bool
  onHandDetected :: bool
  onHandLost :: bool
  smoothingFactor :: real
  previousOpenness :: real
  previousPosition :: point2
  wasHandDetected :: bool

datatype event = GestureUpdate gesture | HandDetected | HandLost

definition constructor :: gesture_detector where
  "constructor =
     \<lparr> showTracking = True,
       sensitivity = 1.0,
       currentGesture =
         \<lparr> openness = 0.5, position = \<lparr> pt_x = 0.5, pt_y = 0.5 \<rparr>,
           isDetected = False, confidence = 0 \<rparr>,
       onGestureUpdate = False,
       onHandDetected = False,
       onHandLost = False,
       smoothingFactor = 0.3,
       previousOpenness = 0.5,
       previousPosition = \<lparr> pt_x = 0.5, pt_y = 0.5 \<rparr>,
       wasHandDetected = False \<rparr>"

text \<open>
  What \<^verbatim>\<open>App.start\<close> does after constructing the detector: it registers the three
  callbacks.
\<close>

definition start :: gesture_detector where
  "start = constructor \<lparr> onGestureUpdate := True, onHandDetected := True, onHandLost := True \<rparr>"

definition setSensitivity :: "real \<Rightarrow> gesture_detector \<Rightarrow> gesture_detector" where
  "setSensitivity sens d =
     d \<lparr> sensitivity := sens, smoothingFactor := 0.2 + (1 - sens) * 0.3 \<rparr>"

text \<open>
  One processed frame, \<^verbatim>\<open>onResults(results)\<close>.  The detector's result is the list of
  hands found, each with its landmarks and the score of its handedness entry; the code
  looks at the first hand only.  Drawing the hand (when \<^verbatim>\<open>showTracking\<close>) reads the same
  21 landmarks as the analysis and changes nothing that is modelled.  The result is the
  callbacks called, in order, and the detector after the frame.
\<close>

type_synonym results = "(landmark list \<times> real) list"

definition onResults :: "results \<Rightarrow> gesture_detector \<Rightarrow> error + (event list \<times> gesture_detector)" where
  "onResults res d =
     (case res of
        (landmarks, score) # _ \<Rightarrow>
          (case analyzeGesture landmarks of
             Inl e \<Rightarrow> Inl e
           | Inr g \<Rightarrow>
               let cg = \<lparr> openness = lerp (previousOpenness d) (raw_openness g) (smoothingFactor d),
                          position =
                            \<lparr> pt_x = lerp (pt_x (previousPosition d)) (pt_x (raw_position g)) (smoothingFactor d),
                              pt_y = lerp (pt_y (previousPosition d)) (pt_y (raw_position g)) (smoothingFactor d) \<rparr>,
                          isDetected = True,
                          confidence = score \<rparr>;
                   d1 = d \<lparr> currentGesture := cg,
                            previousOpenness := openness cg,
                            previousPosition := position cg \<rparr>;
                   ev1 = (if onGestureUpdate d1 then [GestureUpdate (currentGesture d1)] else []);
                   ev2 = (if \<not> wasHandDetected d1 \<and> onHandDetected d1 then [HandDetected] else [])
               in Inr (ev1 @ ev2, d1 \<lparr> wasHandDetected := True \<rparr>))
      | [] \<Rightarrow>
          let ev1 = (if wasHandDetected d \<and> onHandLost d then [HandLost] else []);
              cg = currentGesture d;
              cg' = cg \<lparr> isDetected := False,
                         openness := lerp (openness cg) 0.5 0.05,
                         position :=
                           \<lparr> pt_x = lerp (pt_x (position cg)) 0.5 0.05,
                             pt_y = lerp (pt_y (position cg)) 0.5 0.05 \<rparr> \<rparr>;
              d1 = d \<lparr> wasHandDetected := False, currentGesture := cg' \<rparr>;
              ev2 = (if onGestureUpdate d1 then [GestureUpdate (currentGesture d1)] else [])
          in Inr (ev1 @ ev2, d1))"

text \<open>
  A sequence of processed frames: the events of each frame, and the detector after the
  last one.  A frame that throws ends the sequence.
\<close>

fun frames :: "results list \<Rightarrow> gesture_detector \<Rightarrow> error + (event list list \<times> gesture_detector)" where
  "frames [] d = Inr ([], d)"
| "frames (res # rest) d =
     (case onResults res d of
        Inl e \<Rightarrow> Inl e
      | Inr (evs, d') \<Rightarrow>
          (case frames rest d' of
             Inl e \<Rightarrow> Inl e
           | Inr (evss, d'') \<Rightarrow> Inr (evs # evss, d'')))"

text \<open>\<^verbatim>\<open>K\<close> consecutive frames without a hand.\<close>

definition no_hand_frames :: "nat \<Rightarrow> results list" where
  "no_hand_frames K = replicate K []"


section \<open>The binary threshold variant (the page script)\<close>

text \<open>
  The older page script classifies a hand as open or closed and scales the whole
  particle cloud.  Its \<^verbatim>\<open>distance\<close> subtracts \<^verbatim>\<open>p1.z - p2.z\<close> with no default: a landmark
  without \<^verbatim>\<open>z\<close> makes the distance \<^verbatim>\<open>NaN\<close> (here \<open>None\<close>), and every comparison with \<^verbatim>\<open>NaN\<close>
  is false.
\<close>

definition distance_simple :: "landmark \<Rightarrow> landmark \<Rightarrow> real option" where
  "distance_simple p1 p2 =
     (case (lm_z p1, lm_z p2) of
        (Some z1, Some z2) \<Rightarrow>
          (let dx = lm_x p1 - lm_x p2;
               dy = lm_y p1 - lm_y p2;
               dz = z1 - z2
           in Some (sqrt (dx * dx + dy * dy + dz * dz)))
      | _ \<Rightarrow> None)"

datatype hand_state = Open | Closed

definition extendedCount :: "landmark list \<Rightarrow> nat" where
  "extendedCount landmarks =
     (let thumbTip = landmarks ! 4; indexTip = landmarks ! 8; middleTip = landmarks ! 12;
          ringTip = landmarks ! 16; pinkyTip = landmarks ! 20;
          thumbMCP = landmarks ! 2; indexMCP = landmarks ! 5; middleMCP = landmarks ! 9;
          ringMCP = landmarks ! 13; pinkyMCP = landmarks ! 17;
          thumbExtended = (case distance_simple thumbTip thumbMCP of None \<Rightarrow> False | Some d \<Rightarrow> d > 0.1);
          indexExtended = (lm_y indexTip < lm_y indexMCP);
          middleExtended = (lm_y middleTip < lm_y middleMCP);
          ringExtended = (lm_y ringTip < lm_y ringMCP);
          pinkyExtended = (lm_y pinkyTip < lm_y pinkyMCP)
      in (if thumbExtended then 1 else 0) +
         (if indexExtended then 1 else 0) +
         (if middleExtended then 1 else 0) +
         (if ringExtended then 1 else 0) +
         (if pinkyExtended then 1 else 0))"

text \<open>
  \<^verbatim>\<open>detectHandGesture(landmarks)\<close>; on fewer than 21 landmarks \<^verbatim>\<open>landmarks[20]\<close> is
  \<^verbatim>\<open>undefined\<close> and reading its \<^verbatim>\<open>.y\<close> throws.
\<close>

definition detectHandGesture :: "landmark list \<Rightarrow> error + hand_state" where
  "detectHandGesture landmarks =
     (if length landmarks < 21 then Inl TypeError
      else if extendedCount landmarks \<ge> 3 then Inr Open else Inr Closed)"

text \<open>
  The script's global variables that the gesture and the animation use.  The two
  position arrays are \<^verbatim>\<open>Float32Array\<close>s of \<^verbatim>\<open>particleCount * 3\<close> numbers.
\<close>

record page =
  page_count :: nat
  isHandOpen :: bool
  targetScale :: real
  currentScale :: real
  page_positions :: "real list"
  initialPositions :: "real list"

definition onHandsResults :: "results \<Rightarrow> page \<Rightarrow> error + page" where
  "onHandsResults res p =
     (case res of
        (landmarks, _) # _ \<Rightarrow>
          (case detectHandGesture landmarks of
             Inl e \<Rightarrow> Inl e
           | Inr Open \<Rightarrow> Inr (p \<lparr> isHandOpen := True, targetScale := 1.5 \<rparr>)
           | Inr Closed \<Rightarrow> Inr (p \<lparr> isHandOpen := False, targetScale := 0.3 \<rparr>))
      | [] \<Rightarrow> Inr (p \<lparr> targetScale := 1.0 \<rparr>))"

text \<open>
  One animation frame of the page script: the scale moves towards its target, and every
  position is the initial position times the scale.
\<close>

definition animate_page :: "page \<Rightarrow> error + page" where
  "animate_page p =
     (let p1 = p \<lparr> currentScale := currentScale p + (targetScale p - currentScale p) * 0.05 \<rparr>
      in for_loop (page_count p1)
           (\<lambda>i q.
              let i3 = i * 3;
                  contractionFactor = currentScale q
              in and_then (f32_store (page_positions q) i3
                             (scaled (js_read (initialPositions q) i3) contractionFactor)) (\<lambda>ps1.
                 and_then (f32_store ps1 (i3 + 1)
                             (scaled (js_read (initialPositions q) (i3 + 1)) contractionFactor)) (\<lambda>ps2.
                 and_then (f32_store ps2 (i3 + 2)
                             (scaled (js_read (initialPositions q) (i3 + 2)) contractionFactor)) (\<lambda>ps3.
                 Inr (q \<lparr> page_positions := ps3 \<rparr>)))))
           p1)"


section \<open>The particle engine (ParticleSystem)\<close>

text \<open>
  The pattern names of the \<^verbatim>\<open>switch\<close> in \<^verbatim>\<open>generatePattern\<close>; \<open>RandomCloud\<close> stands for
  every other string, which takes the \<^verbatim>\<open>default\<close> branch.
\<close>

datatype pattern = Sphere | Cube | Torus | Spiral | Galaxy | Heart | DNA | Wave | RandomCloud

text \<open>
  The fields of a \<^verbatim>\<open>ParticleSystem\<close> after \<^verbatim>\<open>init\<close>, with the attribute arrays of
  \<^verbatim>\<open>particles.geometry\<close> (\<open>positions\<close> is \<^verbatim>\<open>attributes.position.array\<close>, the rendered
  positions) and the rotation of \<^verbatim>\<open>particles\<close>.  Scene, camera, renderer, shader and
  bloom settings are left out.  A colour is the number of its hex code; what
  \<^verbatim>\<open>THREE.Color\<close> computes from two colours is a parameter of the functions that colour.

  \<^verbatim>\<open>Math.random()\<close> is modelled by the sequence \<open>randoms\<close> of the values it returns and
  the number \<open>drawn\<close> of values taken so far.
\<close>

record particle_system =
  particleCount :: nat
  particleSize :: real
  animationSpeed :: real
  currentPattern :: pattern
  primaryColor :: nat
  secondaryColor :: nat
  targetPositions :: "real list"
  originalPositions :: "real list"
  velocities :: "real list"
  gestureInfluence :: real
  gesturePosition :: point2
  time :: real
  isAnimating :: bool
  positions :: "real list"
  colors :: "real list"
  sizes :: "real list"
  alphas :: "real list"
  randomSeeds :: "real list"
  rotation :: "real \<times> real \<times> real"
  randoms :: "nat \<Rightarrow> real"
  drawn :: nat

definition radius :: real where
  "radius = 15"

text \<open>
  The body of the \<^verbatim>\<open>switch\<close> for particle \<open>i\<close> of \<open>n\<close>: the point \<open>(x, y, z)\<close> and the
  number of random values drawn after it, the draws in the order in which the
  JavaScript evaluates them.
\<close>

definition patternPoint ::
  "pattern \<Rightarrow> nat \<Rightarrow> nat \<Rightarrow> (nat \<Rightarrow> real) \<Rightarrow> nat \<Rightarrow> (real \<times> real \<times> real) \<times> nat" where
  "patternPoint pattern n i rnd k =
     (case pattern of
        Sphere \<Rightarrow>
          (let phi = arccos (2 * rnd k - 1);
               theta = rnd (k + 1) * pi * 2;
               r = radius * root 3 (rnd (k + 2))
           in ((r * sin phi * cos theta, r * sin phi * sin theta, r * cos phi), k + 3))
      | Cube \<Rightarrow>
          (((rnd k - 0.5) * radius * 2,
            (rnd (k + 1) - 0.5) * radius * 2,
            (rnd (k + 2) - 0.5) * radius * 2), k + 3)
      | Torus \<Rightarrow>
          (let torusAngle = rnd k * pi * 2;
               tubeAngle = rnd (k + 1) * pi * 2;
               torusRadius = radius * 0.8;
               tubeRadius = radius * 0.3 * rnd (k + 2)
           in (((torusRadius + tubeRadius * cos tubeAngle) * cos torusAngle,
                tubeRadius * sin tubeAngle,
                (torusRadius + tubeRadius * cos tubeAngle) * sin torusAngle), k + 3))
      | Spiral \<Rightarrow>
          (let spiralT = (real i / real n) * pi * 8;
               spiralRadius = radius * (0.2 + (real i / real n) * 0.8)
           in ((spiralRadius * cos spiralT + (rnd k - 0.5) * 2,
                (real i / real n - 0.5) * radius * 2,
                spiralRadius * sin spiralT + (rnd (k + 1) - 0.5) * 2), k + 2))
      | Galaxy \<Rightarrow>
          (let arm = real_of_int \<lfloor>rnd k * 3\<rfloor>;
               armAngle = (arm / 3) * pi * 2;
               dst = rnd (k + 1) * radius;
               spread = (1 - dst / radius) * 0.5;
               galaxyAngle = armAngle + (dst / radius) * pi * 2
           in ((dst * cos galaxyAngle + (rnd (k + 2) - 0.5) * spread * radius,
                (rnd (k + 3) - 0.5) * spread * radius * 0.3,
                dst * sin galaxyAngle + (rnd (k + 4) - 0.5) * spread * radius), k + 5))
      | Heart \<Rightarrow>
          (let ht = (real i / real n) * pi * 2;
               heartScale = radius * 0.8;
               x0 = heartScale * 0.8 * (16 * (sin ht) ^ 3) / 16;
               y0 = heartScale * 0.8 *
                      (13 * cos ht - 5 * cos (2 * ht) - 2 * cos (3 * ht) - cos (4 * ht)) / 16;
               z0 = (rnd k - 0.5) * radius * 0.5
           in ((x0 + (rnd (k + 1) - 0.5) * 1.5, y0 + (rnd (k + 2) - 0.5) * 1.5, z0), k + 3))
      | DNA \<Rightarrow>
          (let dnaT = (real i / real n) * pi * 6;
               strand = real (i mod 2);
               dnaRadius = radius * 0.4;
               dnaOffset = strand * pi
           in ((dnaRadius * cos (dnaT + dnaOffset) + (rnd k - 0.5) * 1,
                (real i / real n - 0.5) * radius * 3,
                dnaRadius * sin (dnaT + dnaOffset) + (rnd (k + 1) - 0.5) * 1), k + 2))
      | Wave \<Rightarrow>
          (let waveX = real (i mod 100) / 100 - 0.5;
               waveZ = real (i div 100) / (real n / 100) - 0.5
           in ((waveX * radius * 3,
                sin (waveX * pi * 4) * cos (waveZ * pi * 4) * radius * 0.5 + (rnd k - 0.5) * 1,
                waveZ * radius * 3), k + 1))
      | RandomCloud \<Rightarrow>
          (((rnd k - 0.5) * radius * 2,
            (rnd (k + 1) - 0.5) * radius * 2,
            (rnd (k + 2) - 0.5) * radius * 2), k + 3))"

text \<open>
  \<^verbatim>\<open>generatePattern(pattern)\<close>: a fresh \<^verbatim>\<open>Float32Array\<close> of \<^verbatim>\<open>particleCount * 3\<close> zeros,
  filled particle by particle.  It returns the array; the only state it changes is the
  random source.
\<close>

definition generatePattern :: "pattern \<Rightarrow> particle_system \<Rightarrow> real list \<times> particle_system" where
  "generatePattern pattern s =
     (let (ps, k) =
        for_each (particleCount s)
          (\<lambda>i (ps, k).
             let i3 = i * 3;
                 ((x, y, z), k') = patternPoint pattern (particleCount s) i (randoms s) k
             in (ps[i3 := x, i3 + 1 := y, i3 + 2 := z], k'))
          (replicate (particleCount s * 3) 0, drawn s)
      in (ps, s \<lparr> drawn := k \<rparr>))"

text \<open>
  \<^verbatim>\<open>createParticles()\<close>: new attribute arrays and a new \<^verbatim>\<open>THREE.Points\<close> object (whose
  rotation starts at zero), the three plain arrays emptied and refilled by
  \<^verbatim>\<open>push\<close>.  \<open>shade c1 c2 t\<close> stands for the colour that \<^verbatim>\<open>lerpColors\<close>, \<^verbatim>\<open>getHSL\<close> and
  \<^verbatim>\<open>setHSL\<close> with the boosted saturation and lightness give.
\<close>

definition createParticles ::
  "(nat \<Rightarrow> nat \<Rightarrow> real \<Rightarrow> real \<times> real \<times> real) \<Rightarrow> particle_system \<Rightarrow> error + particle_system" where
  "createParticles shade s =
     (let n = particleCount s;
          s0 = s \<lparr> positions := replicate (n * 3) 0,
                   colors := replicate (n * 3) 0,
                   sizes := replicate n 0,
                   alphas := replicate n 0,
                   randomSeeds := replicate n 0,
                   rotation := (0, 0, 0),
                   targetPositions := [],
                   originalPositions := [],
                   velocities := [] \<rparr>;
          (patternPositions, s1) = generatePattern (currentPattern s0) s0
      in for_loop n
           (\<lambda>i q.
              let i3 = i * 3 in
              and_then (f32_store (positions q) i3 (js_read patternPositions i3)) (\<lambda>p1.
              and_then (f32_store p1 (i3 + 1) (js_read patternPositions (i3 + 1))) (\<lambda>p2.
              and_then (f32_store p2 (i3 + 2) (js_read patternPositions (i3 + 2))) (\<lambda>p3.
              and_then (js_read p3 i3) (\<lambda>a.
              and_then (js_read p3 (i3 + 1)) (\<lambda>b.
              and_then (js_read p3 (i3 + 2)) (\<lambda>c.
                let t = real i / real n;
                    (cr, cg, cb) = shade (primaryColor q) (secondaryColor q) t;
                    k = drawn q
                in Inr (q \<lparr> positions := p3,
                            originalPositions := originalPositions q @ [a, b, c],
                            targetPositions := targetPositions q @ [a, b, c],
                            velocities := velocities q @ [0, 0, 0],
                            colors := (colors q)[i3 := cr, i3 + 1 := cg, i3 + 2 := cb],
                            sizes := (sizes q)[i := particleSize q * (0.4 + randoms q k * 0.6)],
                            alphas := (alphas q)[i := 0.7 + randoms q (k + 1) * 0.3],
                            randomSeeds := (randomSeeds q)[i := randoms q (k + 2)],
                            drawn := k + 3 \<rparr>))))))))
           s1)"

definition setPattern :: "pattern \<Rightarrow> particle_system \<Rightarrow> error + particle_system" where
  "setPattern pattern s =
     (let s0 = s \<lparr> currentPattern := pattern \<rparr>;
          (newPositions, s1) = generatePattern pattern s0
      in for_loop (particleCount s1 * 3)
           (\<lambda>i q.
              and_then (js_read newPositions i) (\<lambda>v.
              and_then (js_write (targetPositions q) i v) (\<lambda>tgt.
              and_then (js_read newPositions i) (\<lambda>w.
              and_then (js_write (originalPositions q) i w) (\<lambda>orig.
              Inr (q \<lparr> targetPositions := tgt, originalPositions := orig \<rparr>))))))
           s1)"

definition setColors ::
  "(nat \<Rightarrow> nat \<Rightarrow> real \<Rightarrow> real \<times> real \<times> real) \<Rightarrow> nat \<Rightarrow> nat \<Rightarrow> particle_system \<Rightarrow> particle_system" where
  "setColors shade primary secondary s =
     (let s0 = s \<lparr> primaryColor := primary, secondaryColor := secondary \<rparr>
      in for_each (particleCount s0)
           (\<lambda>i q.
              let i3 = i * 3;
                  t = real i / real (particleCount q);
                  (cr, cg, cb) = shade (primaryColor q) (secondaryColor q) t
              in q \<lparr> colors := (colors q)[i3 := cr, i3 + 1 := cg, i3 + 2 := cb] \<rparr>)
           s0)"

definition setParticleCount ::
  "(nat \<Rightarrow> nat \<Rightarrow> real \<Rightarrow> real \<times> real \<times> real) \<Rightarrow> nat \<Rightarrow> particle_system \<Rightarrow> error + particle_system" where
  "setParticleCount shade cnt s = createParticles shade (s \<lparr> particleCount := cnt \<rparr>)"

definition setAnimationSpeed :: "real \<Rightarrow> particle_system \<Rightarrow> particle_system" where
  "setAnimationSpeed speed s = s \<lparr> animationSpeed := speed \<rparr>"

text \<open>
  \<^verbatim>\<open>updateGestureInfluence(openness, position, sensitivity)\<close>, the engine's
  \<^verbatim>\<open>applyGesture\<close>: every target is recomputed from the original position.
\<close>

definition updateGestureInfluence ::
  "real \<Rightarrow> point2 \<Rightarrow> real \<Rightarrow> particle_system \<Rightarrow> error + particle_system" where
  "updateGestureInfluence opn pos sens s =
     (let s0 = s \<lparr> gestureInfluence := opn, gesturePosition := pos \<rparr>
      in for_loop (particleCount s0)
           (\<lambda>i q.
              let i3 = i * 3 in
              and_then (js_read (originalPositions q) i3) (\<lambda>ox.
              and_then (js_read (originalPositions q) (i3 + 1)) (\<lambda>oy.
              and_then (js_read (originalPositions q) (i3 + 2)) (\<lambda>oz.
                let scale = 0.3 + opn * 1.7;
                    tx = ox * scale;
                    ty = oy * scale;
                    tz = oz * scale;
                    k = drawn q;
                    (tx, ty, tz, k) =
                      (if opn > 0.7
                       then let dispersion = (opn - 0.7) * 3 * sens
                            in (tx + (randoms q k - 0.5) * dispersion * 10,
                                ty + (randoms q (k + 1) - 0.5) * dispersion * 10,
                                tz + (randoms q (k + 2) - 0.5) * dispersion * 10,
                                k + 3)
                       else (tx, ty, tz, k));
                    gesturePull = sens * 0.3;
                    tx = tx + (pt_x pos - 0.5) * 20 * gesturePull;
                    ty = ty + (0.5 - pt_y pos) * 20 * gesturePull
                in and_then (js_write (targetPositions q) i3 tx) (\<lambda>t1.
                   and_then (js_write t1 (i3 + 1) ty) (\<lambda>t2.
                   and_then (js_write t2 (i3 + 2) tz) (\<lambda>t3.
                   Inr (q \<lparr> targetPositions := t3, drawn := k \<rparr>))))))))
           s0)"

text \<open>
  One frame, \<^verbatim>\<open>animate()\<close>, without the re-arming of the next frame and the draw call.
\<close>

definition animate :: "particle_system \<Rightarrow> error + particle_system" where
  "animate s =
     (if \<not> isAnimating s then Inr s
      else
        let s0 = s \<lparr> time := time s + 0.016 * animationSpeed s \<rparr>
        in and_then
             (for_loop (particleCount s0)
                (\<lambda>i q.
                   let i3 = i * 3;
                       lerpFactor = 0.05 * animationSpeed q;
                       towards = (\<lambda>j p. and_then (js_read (targetPositions q) j)
                                            (\<lambda>tv. Inr ((tv - p) * lerpFactor)))
                   in and_then (f32_add (positions q) i3 (towards i3)) (\<lambda>p1.
                      and_then (f32_add p1 (i3 + 1) (towards (i3 + 1))) (\<lambda>p2.
                      and_then (f32_add p2 (i3 + 2) (towards (i3 + 2))) (\<lambda>p3.
                        let floatSpeed = 0.5 + (real i / real (particleCount q)) * 0.5;
                            floatAmount = 0.1 * animationSpeed q
                        in and_then (f32_add p3 (i3 + 1)
                                       (\<lambda>p. Inr (sin (time q * floatSpeed + real i * 0.1) * floatAmount)))
                             (\<lambda>p4. Inr (q \<lparr> positions := p4 \<rparr>))))))
                s0)
             (\<lambda>s1. case rotation s1 of
                      (rx, ry, rz) \<Rightarrow> Inr (s1 \<lparr> rotation := (rx, ry + 0.001 * animationSpeed s1, rz) \<rparr>)))"

definition reset :: "particle_system \<Rightarrow> error + particle_system" where
  "reset s =
     (let s0 = s \<lparr> gestureInfluence := 0, gesturePosition := \<lparr> pt_x = 0.5, pt_y = 0.5 \<rparr> \<rparr>
      in and_then
           (for_loop (particleCount s0 * 3)
              (\<lambda>i q.
                 and_then (js_read (originalPositions q) i) (\<lambda>v.
                 and_then (js_write (targetPositions q) i v) (\<lambda>tgt.
                 Inr (q \<lparr> targetPositions := tgt \<rparr>))))
              s0)
           (\<lambda>s1. Inr (s1 \<lparr> rotation := (0, 0, 0) \<rparr>)))"

text \<open>
  \<^verbatim>\<open>new ParticleSystem(container)\<close>: the defaults of the constructor, then \<^verbatim>\<open>init\<close>, which
  creates the particles and runs the first frame.  The colours are the hex codes
  \<^verbatim>\<open>0x00d4ff\<close> and \<^verbatim>\<open>0xff00d4\<close>.
\<close>

definition newParticleSystem ::
  "(nat \<Rightarrow> nat \<Rightarrow> real \<Rightarrow> real \<times> real \<times> real) \<Rightarrow> (nat \<Rightarrow> real) \<Rightarrow> error + particle_system" where
  "newParticleSystem shade rnd =
     and_then
       (createParticles shade
          \<lparr> particleCount = 5000,
            particleSize = 2,
            animationSpeed = 1.0,
            currentPattern = Sphere,
            primaryColor = 54527,
            secondaryColor = 16711892,
            targetPositions = [],
            originalPositions = [],
            velocities = [],
            gestureInfluence = 0,
            gesturePosition = \<lparr> pt_x = 0, pt_y = 0 \<rparr>,
            time = 0,
            isAnimating = True,
            positions = [],
            colors = [],
            sizes = [],
            alphas = [],
            randomSeeds = [],
            rotation = (0, 0, 0),
            randoms = rnd,
            drawn = 0 \<rparr>)
       animate"

text \<open>
  The three position arrays hold three numbers for each of the \<open>particleCount\<close>
  particles.
\<close>

definition arrays_agree :: "particle_system \<Rightarrow> bool" where
  "arrays_agree s =
     (length (originalPositions s) = particleCount s * 3 \<and>
      length (targetPositions s) = particleCount s * 3 \<and>
      length (positions s) = particleCount s * 3)"

section \<open>Vocabulary of the properties\<close>

subsection \<open>Gesture estimator\<close>

text \<open>The distance of a control position from the neutral centre \<open>(0.5, 0.5)\<close>.\<close>

definition neutral_distance :: "point2 \<Rightarrow> real" where
  "neutral_distance p = sqrt ((pt_x p - 0.5)\<^sup>2 + (pt_y p - 0.5)\<^sup>2)"

text \<open>
  A detector that has been following an open hand at \<open>(0.9, 0.1)\<close>: the start of the
  relaxation test of the specification.
\<close>

definition tracked_open :: gesture_detector where
  "tracked_open =
     start \<lparr> currentGesture :=
               \<lparr> openness = 1, position = \<lparr> pt_x = 0.9, pt_y = 0.1 \<rparr>,
                 isDetected = True, confidence = 1 \<rparr>,
             previousOpenness := 1,
             previousPosition := \<lparr> pt_x = 0.9, pt_y = 0.1 \<rparr>,
             wasHandDetected := True \<rparr>"

text \<open>
  Two landmark sets in normalised image coordinates, the wrist below the knuckles: an
  open hand (all five tips far above their knuckles) and a fist (every tip on its
  knuckle).
\<close>

definition open_hand :: "landmark list" where
  "open_hand =
     (let w = \<lparr> lm_x = 0.5, lm_y = 0.9, lm_z = Some 0 \<rparr>;
          m = \<lparr> lm_x = 0.5, lm_y = 0.7, lm_z = Some 0 \<rparr>;
          t = \<lparr> lm_x = 0.5, lm_y = 0.3, lm_z = Some 0 \<rparr>
      in [w, m, m, m, t, m, m, m, t, m, m, m, t, m, m, m, t, m, m, m, t])"

definition fist :: "landmark list" where
  "fist =
     (let w = \<lparr> lm_x = 0.5, lm_y = 0.9, lm_z = Some 0 \<rparr>;
          m = \<lparr> lm_x = 0.5, lm_y = 0.7, lm_z = Some 0 \<rparr>
      in [w, m, m, m, m, m, m, m, m, m, m, m, m, m, m, m, m, m, m, m, m])"

text \<open>A frame that \<^verbatim>\<open>onResults\<close> can process: no hand, or a hand whose analysis returns.\<close>

definition analysable :: "results \<Rightarrow> bool" where
  "analysable res = (case res of [] \<Rightarrow> True | (landmarks, _) # _ \<Rightarrow> \<not> isl (analyzeGesture landmarks))"

text \<open>
  Whether a hand was tracked before frame \<open>k\<close> of a sequence: in the frame before it, or,
  for the first frame, by the detector's \<^verbatim>\<open>wasHandDetected\<close>.
\<close>

definition tracked_before :: "gesture_detector \<Rightarrow> results list \<Rightarrow> nat \<Rightarrow> bool" where
  "tracked_before d fs k = (if k = 0 then wasHandDetected d else fs ! (k - 1) \<noteq> [])"

text \<open>The detection sequence no, no, yes, yes, no of the specification.\<close>

definition flicker :: "results list" where
  "flicker = [[], [], [(open_hand, 1)], [(open_hand, 1)], []]"


definition finger_tip :: "nat \<Rightarrow> nat" where
  "finger_tip i = [4, 8, 12, 16, 20] ! i"

definition finger_knuckle :: "nat \<Rightarrow> nat" where
  "finger_knuckle i = [1, 5, 9, 13, 17] ! i"





subsection \<open>Binary threshold variant\<close>

text \<open>
  The five tests of the binary variant in the words of the specification, thumb first:
  the thumb's tip (landmark 4) is further than 0.1 from its base (landmark 2) in the
  Euclidean distance over \<^verbatim>\<open>x\<close>, \<^verbatim>\<open>y\<close> and \<^verbatim>\<open>z\<close>, written out here without the program's
  distance function (where one of the two landmarks has no \<^verbatim>\<open>z\<close> there is no such
  distance and the test fails); each other tip is above its knuckle in the image
  (smaller \<^verbatim>\<open>y\<close>).
\<close>

definition extended_fingers :: "landmark list \<Rightarrow> bool list" where
  "extended_fingers l =
     [case (lm_z (l ! 4), lm_z (l ! 2)) of
        (Some a, Some b) \<Rightarrow>
          0.1 < sqrt ((lm_x (l ! 4) - lm_x (l ! 2))\<^sup>2 + (lm_y (l ! 4) - lm_y (l ! 2))\<^sup>2 + (a - b)\<^sup>2)
      | _ \<Rightarrow> False,
      lm_y (l ! 8) < lm_y (l ! 5),
      lm_y (l ! 12) < lm_y (l ! 9),
      lm_y (l ! 16) < lm_y (l ! 13),
      lm_y (l ! 20) < lm_y (l ! 17)]"

text \<open>
  Hands on which the thumb decides, index and middle finger being extended and ring and
  little finger curled: the thumb's tip lies at its base in the image and at a given
  depth in front of it.
\<close>

definition thumb_forward :: "real \<Rightarrow> landmark list" where
  "thumb_forward depth =
     (let w = \<lparr> lm_x = 0.5, lm_y = 0.9, lm_z = Some 0 \<rparr>;
          m = \<lparr> lm_x = 0.5, lm_y = 0.7, lm_z = Some 0 \<rparr>;
          t = \<lparr> lm_x = 0.5, lm_y = 0.3, lm_z = Some 0 \<rparr>;
          c = \<lparr> lm_x = 0.5, lm_y = 0.7, lm_z = Some depth \<rparr>
      in [w, m, m, m, c, m, m, m, t, m, m, m, t, m, m, m, m, m, m, m, m])"

text \<open>A page with one particle.\<close>

definition small_page :: page where
  "small_page =
     \<lparr> page_count = 1, isHandOpen = False, targetScale = 1.5, currentScale = 1,
       page_positions = [2, 4, 6], initialPositions = [2, 4, 6] \<rparr>"

subsection \<open>Particle engine\<close>

text \<open>The number of random values that one particle of a pattern takes.\<close>

definition draws :: "pattern \<Rightarrow> nat" where
  "draws pattern =
     (case pattern of Spiral \<Rightarrow> 2 | Galaxy \<Rightarrow> 5 | DNA \<Rightarrow> 2 | Wave \<Rightarrow> 1 | _ \<Rightarrow> 3)"

text \<open>
  The dispersion term that \<^verbatim>\<open>updateGestureInfluence\<close> adds to a coordinate, for the random
  value \<open>u\<close> drawn for it: nothing unless the openness exceeds 0.7.
\<close>

definition jitter :: "real \<Rightarrow> real \<Rightarrow> real \<Rightarrow> real" where
  "jitter opn sens u = (if opn > 0.7 then (u - 0.5) * ((opn - 0.7) * 3 * sens) * 10 else 0)"

text \<open>The neutral control position.\<close>

definition centre :: point2 where
  "centre = \<lparr> pt_x = 0.5, pt_y = 0.5 \<rparr>"

text \<open>
  A system with a single particle at \<open>(3, 6, 9)\<close> whose random source always returns 0,
  and the same system with a source that returns 0 first and 0.5 afterwards.
\<close>

definition tiny :: particle_system where
  "tiny =
     \<lparr> particleCount = 1,
       particleSize = 2,
       animationSpeed = 1,
       currentPattern = Sphere,
       primaryColor = 54527,
       secondaryColor = 16711892,
       targetPositions = [3, 6, 9],
       originalPositions = [3, 6, 9],
       velocities = [0, 0, 0],
       gestureInfluence = 0,
       gesturePosition = \<lparr> pt_x = 0, pt_y = 0 \<rparr>,
       time = 0,
       isAnimating = True,
       positions = [3, 6, 9],
       colors = [0, 0, 0],
       sizes = [2],
       alphas = [1],
       randomSeeds = [0],
       rotation = (0, 0, 0),
       randoms = (\<lambda>k. 0),
       drawn = 0 \<rparr>"

definition two_draws :: particle_system where
  "two_draws = tiny \<lparr> randoms := (\<lambda>k. if k = 0 then 0 else 0.5) \<rparr>"

text \<open>A stand-in for the colour computation where the colours do not matter.\<close>

definition no_shade :: "nat \<Rightarrow> nat \<Rightarrow> real \<Rightarrow> real \<times> real \<times> real" where
  "no_shade c1 c2 t = (0, 0, 0)"

section \<open>Properties of the gesture estimator\<close>

subsection \<open>Frames without a hand\<close>

lemma lerp_towards: "lerp a b t - b = (1 - t) * (a - b)"
  by (simp add: lerp_def algebra_simps)

lemma onResults_no_hand:
  "onResults [] d =
     Inr ((if wasHandDetected d \<and> onHandLost d then [HandLost] else []) @
          (if onGestureUpdate d
           then [GestureUpdate
                  ((currentGesture d)
                     \<lparr> isDetected := False,
                       openness := lerp (openness (currentGesture d)) 0.5 0.05,
                       position := \<lparr> pt_x = lerp (pt_x (position (currentGesture d))) 0.5 0.05,
                                     pt_y = lerp (pt_y (position (currentGesture d))) 0.5 0.05 \<rparr> \<rparr>)]
           else []),
          d \<lparr> wasHandDetected := False,
              currentGesture :=
                (currentGesture d)
                  \<lparr> isDetected := False,
                    openness := lerp (openness (currentGesture d)) 0.5 0.05,
                    position := \<lparr> pt_x = lerp (pt_x (position (currentGesture d))) 0.5 0.05,
                                  pt_y = lerp (pt_y (position (currentGesture d))) 0.5 0.05 \<rparr> \<rparr> \<rparr>)"
  by (simp add: onResults_def Let_def)

lemma frames_no_hand:
  "\<exists>evss d'. frames (no_hand_frames K) d = Inr (evss, d') \<and>
     length evss = K \<and>
     openness (currentGesture d') - 0.5 = 0.95 ^ K * (openness (currentGesture d) - 0.5) \<and>
     pt_x (position (currentGesture d')) - 0.5 = 0.95 ^ K * (pt_x (position (currentGesture d)) - 0.5) \<and>
     pt_y (position (currentGesture d')) - 0.5 = 0.95 ^ K * (pt_y (position (currentGesture d)) - 0.5) \<and>
     isDetected (currentGesture d') = (if K = 0 then isDetected (currentGesture d) else False) \<and>
     wasHandDetected d' = (if K = 0 then wasHandDetected d else False) \<and>
     previousOpenness d' = previousOpenness d \<and>
     previousPosition d' = previousPosition d \<and>
     smoothingFactor d' = smoothingFactor d \<and>
     onGestureUpdate d' = onGestureUpdate d \<and>
     onHandDetected d' = onHandDetected d \<and>
     onHandLost d' = onHandLost d"
proof (induction K arbitrary: d)
  case 0
  show ?case by (simp add: no_hand_frames_def)
next
  case (Suc K)
  obtain evs1 d1 where step: "onResults [] d = Inr (evs1, d1)"
    by (simp add: onResults_no_hand)
  have o1: "openness (currentGesture d1) - 0.5 = 0.95 * (openness (currentGesture d) - 0.5)"
    and x1: "pt_x (position (currentGesture d1)) - 0.5 = 0.95 * (pt_x (position (currentGesture d)) - 0.5)"
    and y1: "pt_y (position (currentGesture d1)) - 0.5 = 0.95 * (pt_y (position (currentGesture d)) - 0.5)"
    and rest1: "previousOpenness d1 = previousOpenness d" "previousPosition d1 = previousPosition d"
      "smoothingFactor d1 = smoothingFactor d" "onGestureUpdate d1 = onGestureUpdate d"
      "onHandDetected d1 = onHandDetected d" "onHandLost d1 = onHandLost d"
    and det1: "\<not> isDetected (currentGesture d1)" "\<not> wasHandDetected d1"
    using step by (auto simp add: onResults_no_hand lerp_def algebra_simps)
  from Suc.IH[of d1] obtain evss d' where
    IH: "frames (no_hand_frames K) d1 = Inr (evss, d')" "length evss = K"
      "openness (currentGesture d') - 0.5 = 0.95 ^ K * (openness (currentGesture d1) - 0.5)"
      "pt_x (position (currentGesture d')) - 0.5 = 0.95 ^ K * (pt_x (position (currentGesture d1)) - 0.5)"
      "pt_y (position (currentGesture d')) - 0.5 = 0.95 ^ K * (pt_y (position (currentGesture d1)) - 0.5)"
      "isDetected (currentGesture d') = (if K = 0 then isDetected (currentGesture d1) else False)"
      "wasHandDetected d' = (if K = 0 then wasHandDetected d1 else False)"
      "previousOpenness d' = previousOpenness d1"
      "previousPosition d' = previousPosition d1"
      "smoothingFactor d' = smoothingFactor d1"
      "onGestureUpdate d' = onGestureUpdate d1"
      "onHandDetected d' = onHandDetected d1"
      "onHandLost d' = onHandLost d1"
    by blast
  have run: "frames (no_hand_frames (Suc K)) d = Inr (evs1 # evss, d')"
    using step IH(1) by (simp add: no_hand_frames_def)
  have O: "openness (currentGesture d') - 0.5 = 0.95 ^ Suc K * (openness (currentGesture d) - 0.5)"
    unfolding IH(3) o1 by simp
  have X: "pt_x (position (currentGesture d')) - 0.5 = 0.95 ^ Suc K * (pt_x (position (currentGesture d)) - 0.5)"
    unfolding IH(4) x1 by simp
  have Y: "pt_y (position (currentGesture d')) - 0.5 = 0.95 ^ Suc K * (pt_y (position (currentGesture d)) - 0.5)"
    unfolding IH(5) y1 by simp
  have D: "\<not> isDetected (currentGesture d')" "\<not> wasHandDetected d'"
    using IH(6,7) det1 by (simp_all split: if_splits)
  have L: "length (evs1 # evss) = Suc K"
    using IH(2) by simp
  show ?case
    apply (rule exI[of _ "evs1 # evss"])
    apply (rule exI[of _ d'])
    using run L O X Y D IH(8-13) rest1 by simp
qed

lemma neutral_distance_scaled:
  assumes "pt_x q - 0.5 = c * (pt_x p - 0.5)" "pt_y q - 0.5 = c * (pt_y p - 0.5)" "0 \<le> c"
  shows "neutral_distance q = c * neutral_distance p"
proof -
  have "(pt_x q - 0.5)\<^sup>2 + (pt_y q - 0.5)\<^sup>2 = c\<^sup>2 * ((pt_x p - 0.5)\<^sup>2 + (pt_y p - 0.5)\<^sup>2)"
    unfolding assms(1,2) by (simp only: power_mult_distrib distrib_left)
  then show ?thesis
    using assms(3) by (simp add: neutral_distance_def real_sqrt_mult)
qed

lemma decay_power_mono: "j \<le> K \<Longrightarrow> (0.95::real) ^ K \<le> 0.95 ^ j"
  by (rule power_decreasing) simp_all

text \<open>
  Claim C5.  On every processed frame without a hand the estimator moves the openness
  towards 0.5 and the position towards \<open>(0.5, 0.5)\<close> by a decay with the fixed factor
  0.05 and sets \<open>isDetected\<close> to false.  After \<open>K\<close> such frames the offsets from
  the neutral values are \<open>0.95 ^ K\<close> times the offsets at the start: the distances
  never grow from frame \<open>j\<close> to a later frame \<open>K\<close>, and the values stay on their side
  of the neutral values (no overshoot).
\<close>

theorem no_hand_relaxation:
  assumes "j \<le> K"
  shows "\<exists>ej dj eK dK.
     frames (no_hand_frames j) d = Inr (ej, dj) \<and>
     frames (no_hand_frames K) d = Inr (eK, dK) \<and>
     openness (currentGesture dK) - 0.5 = 0.95 ^ K * (openness (currentGesture d) - 0.5) \<and>
     pt_x (position (currentGesture dK)) - 0.5 = 0.95 ^ K * (pt_x (position (currentGesture d)) - 0.5) \<and>
     pt_y (position (currentGesture dK)) - 0.5 = 0.95 ^ K * (pt_y (position (currentGesture d)) - 0.5) \<and>
     \<bar>openness (currentGesture dK) - 0.5\<bar> \<le> \<bar>openness (currentGesture dj) - 0.5\<bar> \<and>
     \<bar>pt_x (position (currentGesture dK)) - 0.5\<bar> \<le> \<bar>pt_x (position (currentGesture dj)) - 0.5\<bar> \<and>
     \<bar>pt_y (position (currentGesture dK)) - 0.5\<bar> \<le> \<bar>pt_y (position (currentGesture dj)) - 0.5\<bar> \<and>
     neutral_distance (position (currentGesture dK)) \<le> neutral_distance (position (currentGesture dj)) \<and>
     0 \<le> (openness (currentGesture dK) - 0.5) * (openness (currentGesture d) - 0.5) \<and>
     0 \<le> (pt_x (position (currentGesture dK)) - 0.5) * (pt_x (position (currentGesture d)) - 0.5) \<and>
     0 \<le> (pt_y (position (currentGesture dK)) - 0.5) * (pt_y (position (currentGesture d)) - 0.5) \<and>
     isDetected (currentGesture dK) = (K = 0 \<and> isDetected (currentGesture d))"
proof -
  obtain ej dj where J: "frames (no_hand_frames j) d = Inr (ej, dj)"
    and oj: "openness (currentGesture dj) - 0.5 = 0.95 ^ j * (openness (currentGesture d) - 0.5)"
    and xj: "pt_x (position (currentGesture dj)) - 0.5 = 0.95 ^ j * (pt_x (position (currentGesture d)) - 0.5)"
    and yj: "pt_y (position (currentGesture dj)) - 0.5 = 0.95 ^ j * (pt_y (position (currentGesture d)) - 0.5)"
    using frames_no_hand[of j d] by blast
  obtain eK dK where K: "frames (no_hand_frames K) d = Inr (eK, dK)"
    and oK: "openness (currentGesture dK) - 0.5 = 0.95 ^ K * (openness (currentGesture d) - 0.5)"
    and xK: "pt_x (position (currentGesture dK)) - 0.5 = 0.95 ^ K * (pt_x (position (currentGesture d)) - 0.5)"
    and yK: "pt_y (position (currentGesture dK)) - 0.5 = 0.95 ^ K * (pt_y (position (currentGesture d)) - 0.5)"
    and detK: "isDetected (currentGesture dK) = (if K = 0 then isDetected (currentGesture d) else False)"
    using frames_no_hand[of K d] by blast
  have pw: "(0.95::real) ^ K \<le> 0.95 ^ j"
    using assms by (rule decay_power_mono)
  have shrink: "\<bar>0.95 ^ K * a\<bar> \<le> \<bar>0.95 ^ j * a\<bar>" for a :: real
    using pw by (simp add: abs_mult mult_right_mono)
  have same_side: "0 \<le> (0.95 ^ K * a) * a" for a :: real
    by (simp add: mult.assoc)
  have nd: "neutral_distance (position (currentGesture dK))
              \<le> neutral_distance (position (currentGesture dj))"
  proof -
    have "neutral_distance (position (currentGesture dK))
            = 0.95 ^ K * neutral_distance (position (currentGesture d))"
      by (rule neutral_distance_scaled[OF xK yK]) simp
    moreover have "neutral_distance (position (currentGesture dj))
            = 0.95 ^ j * neutral_distance (position (currentGesture d))"
      by (rule neutral_distance_scaled[OF xj yj]) simp
    moreover have "0 \<le> neutral_distance (position (currentGesture d))"
      by (simp add: neutral_distance_def)
    ultimately show ?thesis
      using pw by (simp add: mult_right_mono)
  qed
  have det: "isDetected (currentGesture dK) = (K = 0 \<and> isDetected (currentGesture d))"
    using detK by simp
  show ?thesis
    apply (rule exI[of _ ej], rule exI[of _ dj], rule exI[of _ eK], rule exI[of _ dK])
    unfolding oK xK yK oj xj yj
    using J K shrink same_side nd det by simp
qed

text \<open>
  The relaxation test of the specification, two frames long: from openness 1 and position
  \<open>(0.9, 0.1)\<close>.
\<close>

theorem no_hand_relaxation_witness:
  "(1::nat) \<le> 2 \<and>
   (\<exists>eK dK. frames (no_hand_frames 2) tracked_open = Inr (eK, dK) \<and>
      openness (currentGesture dK) = 0.95125 \<and>
      pt_x (position (currentGesture dK)) = 0.861 \<and>
      pt_y (position (currentGesture dK)) = 0.139 \<and>
      \<not> isDetected (currentGesture dK))"
proof -
  have h: "(1::nat) \<le> 2" by simp
  from no_hand_relaxation[OF h, of tracked_open]
  obtain ej dj eK dK where
    "frames (no_hand_frames 2) tracked_open = Inr (eK, dK)"
    "openness (currentGesture dK) - 0.5 = 0.95 ^ 2 * (openness (currentGesture tracked_open) - 0.5)"
    "pt_x (position (currentGesture dK)) - 0.5 = 0.95 ^ 2 * (pt_x (position (currentGesture tracked_open)) - 0.5)"
    "pt_y (position (currentGesture dK)) - 0.5 = 0.95 ^ 2 * (pt_y (position (currentGesture tracked_open)) - 0.5)"
    "isDetected (currentGesture dK) = ((2::nat) = 0 \<and> isDetected (currentGesture tracked_open))"
    by blast
  then show ?thesis
    by (auto simp add: tracked_open_def start_def constructor_def power2_eq_square)
qed

subsection \<open>Concrete hands\<close>

lemma distance_vertical:
  "lm_x p = lm_x q \<Longrightarrow> lm_z p = lm_z q \<Longrightarrow> distance p q = \<bar>lm_y p - lm_y q\<bar>"
  by (simp add: distance_def z_or_0_def)

lemma for_loop_numeral:
  "for_loop (numeral k) body s =
     (case for_loop (pred_numeral k) body s of Inl e \<Rightarrow> Inl e | Inr s' \<Rightarrow> body (pred_numeral k) s')"
  by (simp add: numeral_eq_Suc)

lemma analyzeGesture_open_hand:
  "analyzeGesture open_hand = Inr \<lparr> raw_openness = 1, raw_position = \<lparr> pt_x = 0.5, pt_y = 23 / 30 \<rparr> \<rparr>"
  by (simp add: analyzeGesture_def open_hand_def fingerTips_def fingerMCPs_def WRIST_def
      extension_def distance_vertical for_loop_numeral Let_def)

lemma analyzeGesture_fist:
  "analyzeGesture fist = Inr \<lparr> raw_openness = 0, raw_position = \<lparr> pt_x = 0.5, pt_y = 23 / 30 \<rparr> \<rparr>"
  by (simp add: analyzeGesture_def fist_def fingerTips_def fingerMCPs_def WRIST_def
      extension_def distance_vertical for_loop_numeral Let_def)

subsection \<open>Edge-triggered notifications\<close>

lemma onResults_hand:
  assumes "analyzeGesture landmarks = Inr g"
  shows "onResults ((landmarks, score) # rest) d =
     Inr ((if onGestureUpdate d
           then [GestureUpdate
                   \<lparr> openness = lerp (previousOpenness d) (raw_openness g) (smoothingFactor d),
                     position =
                       \<lparr> pt_x = lerp (pt_x (previousPosition d)) (pt_x (raw_position g)) (smoothingFactor d),
                         pt_y = lerp (pt_y (previousPosition d)) (pt_y (raw_position g)) (smoothingFactor d) \<rparr>,
                     isDetected = True, confidence = score \<rparr>]
           else []) @
          (if \<not> wasHandDetected d \<and> onHandDetected d then [HandDetected] else []),
          d \<lparr> currentGesture :=
                \<lparr> openness = lerp (previousOpenness d) (raw_openness g) (smoothingFactor d),
                  position =
                    \<lparr> pt_x = lerp (pt_x (previousPosition d)) (pt_x (raw_position g)) (smoothingFactor d),
                      pt_y = lerp (pt_y (previousPosition d)) (pt_y (raw_position g)) (smoothingFactor d) \<rparr>,
                  isDetected = True, confidence = score \<rparr>,
              previousOpenness := lerp (previousOpenness d) (raw_openness g) (smoothingFactor d),
              previousPosition :=
                \<lparr> pt_x = lerp (pt_x (previousPosition d)) (pt_x (raw_position g)) (smoothingFactor d),
                  pt_y = lerp (pt_y (previousPosition d)) (pt_y (raw_position g)) (smoothingFactor d) \<rparr>,
              wasHandDetected := True \<rparr>)"
  using assms by (simp add: onResults_def Let_def)

lemma onResults_events:
  assumes "analysable res"
  shows "\<exists>evs d'. onResults res d = Inr (evs, d') \<and>
     wasHandDetected d' = (res \<noteq> []) \<and>
     (HandDetected \<in> set evs) = (res \<noteq> [] \<and> \<not> wasHandDetected d \<and> onHandDetected d) \<and>
     (HandLost \<in> set evs) = (res = [] \<and> wasHandDetected d \<and> onHandLost d) \<and>
     count_list evs HandDetected \<le> 1 \<and> count_list evs HandLost \<le> 1 \<and>
     onHandDetected d' = onHandDetected d \<and> onHandLost d' = onHandLost d"
proof (cases res)
  case Nil
  then show ?thesis by (simp add: onResults_no_hand)
next
  case (Cons h rest)
  obtain landmarks score where h: "h = (landmarks, score)" by (cases h)
  from assms Cons h obtain g where g: "analyzeGesture landmarks = Inr g"
    by (cases "analyzeGesture landmarks") (simp_all add: analysable_def)
  show ?thesis
    unfolding Cons h by (simp add: onResults_hand[OF g])
qed

lemma frames_events:
  assumes "\<forall>res \<in> set fs. analysable res" "onHandDetected d" "onHandLost d"
  shows "\<exists>evss d'. frames fs d = Inr (evss, d') \<and> length evss = length fs \<and>
     (\<forall>k < length fs.
        (HandDetected \<in> set (evss ! k)) = (fs ! k \<noteq> [] \<and> \<not> tracked_before d fs k) \<and>
        (HandLost \<in> set (evss ! k)) = (fs ! k = [] \<and> tracked_before d fs k) \<and>
        count_list (evss ! k) HandDetected \<le> 1 \<and>
        count_list (evss ! k) HandLost \<le> 1)"
  using assms
proof (induction fs arbitrary: d)
  case Nil
  show ?case by simp
next
  case (Cons res rest)
  from Cons.prems(1) have ok: "analysable res" by simp
  from onResults_events[OF ok, of d] Cons.prems(2,3)
  obtain evs d1 where step: "onResults res d = Inr (evs, d1)"
    and was1: "wasHandDetected d1 = (res \<noteq> [])"
    and hd: "(HandDetected \<in> set evs) = (res \<noteq> [] \<and> \<not> wasHandDetected d)"
    and hl: "(HandLost \<in> set evs) = (res = [] \<and> wasHandDetected d)"
    and cnt: "count_list evs HandDetected \<le> 1" "count_list evs HandLost \<le> 1"
    and reg1: "onHandDetected d1" "onHandLost d1"
    by auto
  from Cons.prems(1) have okr: "\<forall>res \<in> set rest. analysable res" by simp
  from Cons.IH[OF okr reg1]
  obtain evss d' where rest: "frames rest d1 = Inr (evss, d')"
    and len: "length evss = length rest"
    and IH: "\<And>k. k < length rest \<Longrightarrow>
        (HandDetected \<in> set (evss ! k)) = (rest ! k \<noteq> [] \<and> \<not> tracked_before d1 rest k) \<and>
        (HandLost \<in> set (evss ! k)) = (rest ! k = [] \<and> tracked_before d1 rest k) \<and>
        count_list (evss ! k) HandDetected \<le> 1 \<and>
        count_list (evss ! k) HandLost \<le> 1"
    by blast
  have run: "frames (res # rest) d = Inr (evs # evss, d')"
    using step rest by simp
  have each: "(HandDetected \<in> set ((evs # evss) ! k)) = ((res # rest) ! k \<noteq> [] \<and> \<not> tracked_before d (res # rest) k) \<and>
        (HandLost \<in> set ((evs # evss) ! k)) = ((res # rest) ! k = [] \<and> tracked_before d (res # rest) k) \<and>
        count_list ((evs # evss) ! k) HandDetected \<le> 1 \<and>
        count_list ((evs # evss) ! k) HandLost \<le> 1" if "k < length (res # rest)" for k
  proof (cases k)
    case 0
    then show ?thesis using hd hl cnt by (simp add: tracked_before_def)
  next
    case (Suc k')
    with that have k': "k' < length rest" by simp
    have tb: "tracked_before d (res # rest) (Suc k') = tracked_before d1 rest k'"
      by (cases k') (simp_all add: tracked_before_def was1)
    show ?thesis
      unfolding Suc tb using IH[OF k'] by simp
  qed
  show ?case
    apply (rule exI[of _ "evs # evss"], rule exI[of _ d'])
    using run len each by simp
qed

text \<open>
  Between a position where \<open>P\<close> holds and a later one where it does not, there is a first
  position where it does not.
\<close>

lemma first_change:
  fixes P :: "nat \<Rightarrow> bool"
  assumes "j < k" "P j" "\<not> P k"
  shows "\<exists>m. j < m \<and> m \<le> k \<and> \<not> P m \<and> P (m - 1)"
  using assms
proof (induction k)
  case 0
  then show ?case by simp
next
  case (Suc k)
  show ?case
  proof (cases "P k")
    case True
    then show ?thesis using Suc.prems by (intro exI[of _ "Suc k"]) simp
  next
    case False
    have "j < k" using Suc.prems False by (metis less_antisym)
    from Suc.IH[OF this Suc.prems(2) False] show ?thesis
      by (meson le_SucI)
  qed
qed

text \<open>
  Claim C6.  With both callbacks registered, \<^verbatim>\<open>onHandDetected\<close> is called in frame \<open>k\<close>
  exactly when frame \<open>k\<close> has a hand and no hand was tracked before it, and
  \<^verbatim>\<open>onHandLost\<close> exactly when frame \<open>k\<close> has no hand and a hand was tracked before it; each
  at most once in a frame, never on a frame that leaves the detection state unchanged.
  Two calls of the same notification always have a call of the other one between them.
\<close>

theorem edge_triggers:
  assumes "onHandDetected d" "onHandLost d" "\<forall>res \<in> set fs. analysable res"
  shows "\<exists>evss d'. frames fs d = Inr (evss, d') \<and> length evss = length fs \<and>
     (\<forall>k < length fs.
        (HandDetected \<in> set (evss ! k)) = (fs ! k \<noteq> [] \<and> \<not> tracked_before d fs k) \<and>
        (HandLost \<in> set (evss ! k)) = (fs ! k = [] \<and> tracked_before d fs k) \<and>
        count_list (evss ! k) HandDetected \<le> 1 \<and>
        count_list (evss ! k) HandLost \<le> 1) \<and>
     (\<forall>j k. j < k \<and> k < length fs \<and>
        HandDetected \<in> set (evss ! j) \<and> HandDetected \<in> set (evss ! k) \<longrightarrow>
        (\<exists>m. j < m \<and> m < k \<and> HandLost \<in> set (evss ! m))) \<and>
     (\<forall>j k. j < k \<and> k < length fs \<and>
        HandLost \<in> set (evss ! j) \<and> HandLost \<in> set (evss ! k) \<longrightarrow>
        (\<exists>m. j < m \<and> m < k \<and> HandDetected \<in> set (evss ! m)))"
proof -
  from frames_events[OF assms(3) assms(1) assms(2)]
  obtain evss d' where run: "frames fs d = Inr (evss, d')"
    and len: "length evss = length fs"
    and ev: "\<And>k. k < length fs \<Longrightarrow>
        (HandDetected \<in> set (evss ! k)) = (fs ! k \<noteq> [] \<and> \<not> tracked_before d fs k) \<and>
        (HandLost \<in> set (evss ! k)) = (fs ! k = [] \<and> tracked_before d fs k) \<and>
        count_list (evss ! k) HandDetected \<le> 1 \<and>
        count_list (evss ! k) HandLost \<le> 1"
    by blast
  have before: "tracked_before d fs m = (fs ! (m - 1) \<noteq> [])" if "0 < m" for m
    using that by (simp add: tracked_before_def)
  have alt1: "\<exists>m. j < m \<and> m < k \<and> HandLost \<in> set (evss ! m)"
    if jk: "j < k" "k < length fs"
      and a: "HandDetected \<in> set (evss ! j)" and b: "HandDetected \<in> set (evss ! k)" for j k
  proof -
    have pj: "fs ! j \<noteq> []" using ev[of j] a jk by simp
    have pk: "\<not> fs ! (k - 1) \<noteq> []" using ev[OF jk(2)] b before[of k] jk(1) by simp
    have "j \<noteq> k - 1" using pj pk by auto
    with jk(1) have "j < k - 1" by simp
    from first_change[of j "k - 1" "\<lambda>m. fs ! m \<noteq> []", OF this pj pk]
    obtain m where m: "j < m" "m \<le> k - 1" "fs ! m = []" "fs ! (m - 1) \<noteq> []" by auto
    have "m < length fs" using m(2) jk by simp
    from ev[OF this] m before[of m] have "HandLost \<in> set (evss ! m)" by simp
    moreover have "m < k" using m(2) jk(1) by simp
    ultimately show ?thesis using m(1) by blast
  qed
  have alt2: "\<exists>m. j < m \<and> m < k \<and> HandDetected \<in> set (evss ! m)"
    if jk: "j < k" "k < length fs"
      and a: "HandLost \<in> set (evss ! j)" and b: "HandLost \<in> set (evss ! k)" for j k
  proof -
    have pj: "fs ! j = []" using ev[of j] a jk by simp
    have pk: "\<not> fs ! (k - 1) = []" using ev[OF jk(2)] b before[of k] jk(1) by simp
    have "j \<noteq> k - 1" using pj pk by auto
    with jk(1) have "j < k - 1" by simp
    from first_change[of j "k - 1" "\<lambda>m. fs ! m = []", OF this pj pk]
    obtain m where m: "j < m" "m \<le> k - 1" "fs ! m \<noteq> []" "fs ! (m - 1) = []" by auto
    have "m < length fs" using m(2) jk by simp
    from ev[OF this] m before[of m] have "HandDetected \<in> set (evss ! m)" by simp
    moreover have "m < k" using m(2) jk(1) by simp
    ultimately show ?thesis using m(1) by blast
  qed
  show ?thesis
    apply (rule exI[of _ evss], rule exI[of _ d'])
    using run len ev alt1 alt2 by blast
qed

lemma analysable_flicker: "\<forall>res \<in> set flicker. analysable res"
  by (simp add: flicker_def analysable_def analyzeGesture_open_hand)

text \<open>
  The sequence no, no, yes, yes, no from a fresh detector: one \<^verbatim>\<open>HandDetected\<close>, at index
  2, and one \<^verbatim>\<open>HandLost\<close>, at index 4.
\<close>

theorem edge_triggers_witness:
  "onHandDetected start \<and> onHandLost start \<and> analysable [] \<and> analysable [(open_hand, 1)] \<and>
   (\<exists>evss d'. frames flicker start = Inr (evss, d') \<and> length evss = 5 \<and>
      HandDetected \<notin> set (evss ! 0) \<and> HandDetected \<notin> set (evss ! 1) \<and>
      HandDetected \<in> set (evss ! 2) \<and> HandDetected \<notin> set (evss ! 3) \<and>
      HandDetected \<notin> set (evss ! 4) \<and>
      HandLost \<notin> set (evss ! 0) \<and> HandLost \<notin> set (evss ! 1) \<and>
      HandLost \<notin> set (evss ! 2) \<and> HandLost \<notin> set (evss ! 3) \<and>
      HandLost \<in> set (evss ! 4) \<and>
      count_list (evss ! 2) HandDetected = 1 \<and> count_list (evss ! 4) HandLost = 1)"
proof -
  have reg: "onHandDetected start" "onHandLost start"
    by (simp_all add: start_def constructor_def)
  have ok: "analysable []" "analysable [(open_hand, 1)]"
    by (simp_all add: analysable_def analyzeGesture_open_hand)
  from edge_triggers[OF reg analysable_flicker]
  obtain evss d' where run: "frames flicker start = Inr (evss, d')"
    and len: "length evss = length flicker"
    and ev: "\<And>k. k < length flicker \<Longrightarrow>
        (HandDetected \<in> set (evss ! k)) = (flicker ! k \<noteq> [] \<and> \<not> tracked_before start flicker k) \<and>
        (HandLost \<in> set (evss ! k)) = (flicker ! k = [] \<and> tracked_before start flicker k) \<and>
        count_list (evss ! k) HandDetected \<le> 1 \<and>
        count_list (evss ! k) HandLost \<le> 1"
    by blast
  have w0: "\<not> wasHandDetected start" by (simp add: start_def constructor_def)
  have e0: "HandDetected \<notin> set (evss ! 0)" "HandLost \<notin> set (evss ! 0)"
    using ev[of 0] w0 by (simp_all add: flicker_def tracked_before_def)
  have e1: "HandDetected \<notin> set (evss ! 1)" "HandLost \<notin> set (evss ! 1)"
    using ev[of 1] by (simp_all add: flicker_def tracked_before_def)
  have e2: "HandDetected \<in> set (evss ! 2)" "HandLost \<notin> set (evss ! 2)"
    "count_list (evss ! 2) HandDetected \<le> 1"
    using ev[of 2] by (simp_all add: flicker_def tracked_before_def)
  have e3: "HandDetected \<notin> set (evss ! 3)" "HandLost \<notin> set (evss ! 3)"
    using ev[of 3] by (simp_all add: flicker_def tracked_before_def)
  have e4: "HandDetected \<notin> set (evss ! 4)" "HandLost \<in> set (evss ! 4)"
    "count_list (evss ! 4) HandLost \<le> 1"
    using ev[of 4] by (simp_all add: flicker_def tracked_before_def)
  have c2: "count_list (evss ! 2) HandDetected = 1"
    using e2(1,3) by (metis count_list_0_iff le_neq_implies_less less_one)
  have c4: "count_list (evss ! 4) HandLost = 1"
    using e4(2,3) by (metis count_list_0_iff le_neq_implies_less less_one)
  have l5: "length evss = 5" using len by (simp add: flicker_def)
  show ?thesis
    using reg ok run l5 e0 e1 e2(1,2) e3 e4(1,2) c2 c4 by blast
qed

subsection \<open>The smoothing state across frames without a hand\<close>

text \<open>
  Claim C10.  Frames without a hand leave \<^verbatim>\<open>previousOpenness\<close> and \<^verbatim>\<open>previousPosition\<close>
  unchanged (only the emitted gesture decays); the first frame with a hand after them
  interpolates from these last tracked values, not from the relaxed ones.
\<close>

theorem previous_values_kept:
  assumes "analyzeGesture landmarks = Inr g"
  shows "\<exists>evss d' evs d''.
     frames (no_hand_frames K) d = Inr (evss, d') \<and>
     previousOpenness d' = previousOpenness d \<and>
     previousPosition d' = previousPosition d \<and>
     onResults ((landmarks, score) # rest) d' = Inr (evs, d'') \<and>
     openness (currentGesture d'') = lerp (previousOpenness d) (raw_openness g) (smoothingFactor d) \<and>
     pt_x (position (currentGesture d'')) =
       lerp (pt_x (previousPosition d)) (pt_x (raw_position g)) (smoothingFactor d) \<and>
     pt_y (position (currentGesture d'')) =
       lerp (pt_y (previousPosition d)) (pt_y (raw_position g)) (smoothingFactor d)"
proof -
  from frames_no_hand[of K d]
  obtain evss d' where run: "frames (no_hand_frames K) d = Inr (evss, d')"
    and keep: "previousOpenness d' = previousOpenness d" "previousPosition d' = previousPosition d"
      "smoothingFactor d' = smoothingFactor d"
    by blast
  show ?thesis
    apply (rule exI[of _ evss], rule exI[of _ d'])
    using run keep by (simp add: onResults_hand[OF assms])
qed

text \<open>
  After an open hand and one frame without a hand the emitted openness has relaxed to
  0.975; a fist then gives \<open>lerp 1 0 0.3 = 0.7\<close>, not \<open>lerp 0.975 0 0.3\<close>.
\<close>

theorem previous_values_kept_witness:
  "analyzeGesture fist = Inr \<lparr> raw_openness = 0, raw_position = \<lparr> pt_x = 0.5, pt_y = 23 / 30 \<rparr> \<rparr> \<and>
   (\<exists>evss d' evs d''.
      frames (no_hand_frames 1) tracked_open = Inr (evss, d') \<and>
      openness (currentGesture d') = 0.975 \<and>
      previousOpenness d' = 1 \<and>
      onResults [(fist, 1)] d' = Inr (evs, d'') \<and>
      openness (currentGesture d'') = 0.7 \<and>
      openness (currentGesture d'') \<noteq> lerp (openness (currentGesture d')) 0 0.3)"
proof -
  from previous_values_kept[OF analyzeGesture_fist, of 1 tracked_open 1 "[]"]
  obtain evss d' evs d'' where
    run: "frames (no_hand_frames 1) tracked_open = Inr (evss, d')"
    and keep: "previousOpenness d' = previousOpenness tracked_open"
    and hand: "onResults [(fist, 1)] d' = Inr (evs, d'')"
    and out: "openness (currentGesture d'') =
        lerp (previousOpenness tracked_open) (raw_openness \<lparr> raw_openness = 0, raw_position = \<lparr> pt_x = 0.5, pt_y = 23 / 30 \<rparr> \<rparr>)
          (smoothingFactor tracked_open)"
    by blast
  have relaxed: "openness (currentGesture d') = 0.975"
    using run by (auto simp add: no_hand_frames_def onResults_no_hand tracked_open_def start_def
        constructor_def lerp_def)
  have prev: "previousOpenness tracked_open = 1" "smoothingFactor tracked_open = 0.3"
    by (simp_all add: tracked_open_def start_def constructor_def)
  have o: "openness (currentGesture d'') = 0.7"
    using out prev by (simp add: lerp_def)
  show ?thesis
    apply (rule conjI[OF analyzeGesture_fist])
    apply (rule exI[of _ evss], rule exI[of _ d'], rule exI[of _ evs], rule exI[of _ d''])
    using run keep hand o relaxed prev by (simp add: lerp_def)
qed

subsection \<open>Extension scores and raw openness\<close>


lemma finger_tables:
  "fingerTips ! i = finger_tip i" "fingerMCPs ! i = finger_knuckle i"
  by (simp_all add: fingerTips_def fingerMCPs_def finger_tip_def finger_knuckle_def)














subsection \<open>Sensitivity and smoothing\<close>

text \<open>
  The smoothing factor starts at 0.3; \<^verbatim>\<open>setSensitivity\<close> sets it to
  \<open>0.2 + (1 - sensitivity) * 0.3\<close>, which falls as the sensitivity rises and is 0.5 at
  sensitivity 0.
\<close>

lemma smoothing_factor_of_sensitivity:
  "smoothingFactor constructor = 0.3"
  "smoothingFactor (setSensitivity sens d) = 0.2 + (1 - sens) * 0.3"
  "smoothingFactor (setSensitivity 0 d) = 0.5"
  by (simp_all add: constructor_def setSensitivity_def)

lemma smoothing_factor_antitone:
  assumes "s1 \<le> s2"
  shows "smoothingFactor (setSensitivity s2 d) \<le> smoothingFactor (setSensitivity s1 d)"
  using assms by (simp add: setSensitivity_def)

lemma smoothing_factor_max:
  assumes "0 \<le> sens"
  shows "smoothingFactor (setSensitivity sens d) \<le> 0.5"
  using assms by (simp add: setSensitivity_def field_simps)

text \<open>
  Claim C8.  The factor is the weight of the new raw value in
  \<^verbatim>\<open>lerp(previous, raw, smoothingFactor)\<close>, so the larger factor of a lower sensitivity
  smooths less, against the comment on \<^verbatim>\<open>setSensitivity\<close>
  (\<^verbatim>\<open>Lower sensitivity = more smoothing\<close>): from the previous openness 0.5, an open hand
  (raw openness 1) gives 0.75 at sensitivity 0 and 0.6 at sensitivity 1.
\<close>

theorem lower_sensitivity_smooths_less:
  "\<exists>e0 d0 e1 d1.
     onResults [(open_hand, 1)] (setSensitivity 0 start) = Inr (e0, d0) \<and>
     onResults [(open_hand, 1)] (setSensitivity 1 start) = Inr (e1, d1) \<and>
     smoothingFactor (setSensitivity 0 start) = 0.5 \<and>
     smoothingFactor (setSensitivity 1 start) = 0.2 \<and>
     previousOpenness (setSensitivity 0 start) = 0.5 \<and>
     previousOpenness (setSensitivity 1 start) = 0.5 \<and>
     openness (currentGesture d0) = 0.75 \<and>
     openness (currentGesture d1) = 0.6"
  by (simp add: onResults_hand[OF analyzeGesture_open_hand] setSensitivity_def start_def
      constructor_def lerp_def)

section \<open>Loops\<close>

text \<open>A loop invariant that every round keeps holds after the loop, which returns.\<close>

lemma for_loop_invariant:
  assumes "P 0 s"
    and "\<And>i t. i < n \<Longrightarrow> P i t \<Longrightarrow> \<exists>t'. body i t = Inr t' \<and> P (Suc i) t'"
  shows "\<exists>t. for_loop n body s = Inr t \<and> P n t"
proof -
  have "m \<le> n \<Longrightarrow> \<exists>t. for_loop m body s = Inr t \<and> P m t" for m
  proof (induction m)
    case 0
    show ?case using assms(1) by simp
  next
    case (Suc m)
    then obtain t where t: "for_loop m body s = Inr t" "P m t" by auto
    from assms(2)[OF _ t(2)] Suc.prems obtain t' where "body m t = Inr t'" "P (Suc m) t'"
      by auto
    then show ?case using t(1) by simp
  qed
  then show ?thesis by simp
qed

lemma for_each_invariant:
  assumes "P 0 s"
    and "\<And>i t. i < n \<Longrightarrow> P i t \<Longrightarrow> P (Suc i) (body i t)"
  shows "P n (for_each n body s)"
proof -
  have "m \<le> n \<Longrightarrow> P m (for_each m body s)" for m
    by (induction m) (simp_all add: assms)
  then show ?thesis by simp
qed

section \<open>Properties of the binary threshold variant\<close>

text \<open>The program's distance is the Euclidean one where both landmarks have a depth.\<close>

lemma distance_simple_euclidean:
  "distance_simple p q =
     (case (lm_z p, lm_z q) of
        (Some a, Some b) \<Rightarrow> Some (sqrt ((lm_x p - lm_x q)\<^sup>2 + (lm_y p - lm_y q)\<^sup>2 + (a - b)\<^sup>2))
      | _ \<Rightarrow> None)"
  by (simp add: distance_simple_def Let_def power2_eq_square split: option.splits)

lemma extendedCount_filter:
  "extendedCount l = length (filter (\<lambda>b. b) (extended_fingers l))"
  by (simp add: extendedCount_def extended_fingers_def distance_simple_euclidean Let_def
      split: option.splits)

lemma extended_fingers_thumb_forward:
  "extended_fingers (thumb_forward c) = [0.1 < \<bar>c\<bar>, True, True, False, False]"
  by (simp add: extended_fingers_def thumb_forward_def Let_def)

lemma animate_page_scaled:
  assumes "length (initialPositions p) = page_count p * 3"
    and "length (page_positions p) = page_count p * 3"
  shows "\<exists>q. animate_page p = Inr q \<and>
     currentScale q = currentScale p + (targetScale p - currentScale p) * 0.05 \<and>
     targetScale q = targetScale p \<and>
     initialPositions q = initialPositions p \<and>
     length (page_positions q) = page_count p * 3 \<and>
     (\<forall>j < page_count p * 3. page_positions q ! j = initialPositions p ! j * currentScale q)"
proof -
  define c where "c = currentScale p + (targetScale p - currentScale p) * 0.05"
  define p1 where "p1 = p \<lparr> currentScale := c \<rparr>"
  define n where "n = page_count p"
  define P where "P i q \<longleftrightarrow>
      currentScale q = c \<and> targetScale q = targetScale p \<and>
      initialPositions q = initialPositions p \<and> page_count q = n \<and>
      length (page_positions q) = n * 3 \<and>
      (\<forall>j < i * 3. page_positions q ! j = initialPositions p ! j * c)" for i and q :: page
  define body where "body =
      (\<lambda>i (q :: page).
              let i3 = i * 3;
                  contractionFactor = currentScale q
              in and_then (f32_store (page_positions q) i3
                             (scaled (js_read (initialPositions q) i3) contractionFactor)) (\<lambda>ps1.
                 and_then (f32_store ps1 (i3 + 1)
                             (scaled (js_read (initialPositions q) (i3 + 1)) contractionFactor)) (\<lambda>ps2.
                 and_then (f32_store ps2 (i3 + 2)
                             (scaled (js_read (initialPositions q) (i3 + 2)) contractionFactor)) (\<lambda>ps3.
                 Inr (q \<lparr> page_positions := ps3 \<rparr>)))))"
  have start: "P 0 p1"
    using assms by (simp add: P_def p1_def n_def)
  have step: "\<exists>t'. body i t = Inr t' \<and> P (Suc i) t'" if "i < n" "P i t" for i t
  proof -
    from that(2) have inv: "currentScale t = c" "targetScale t = targetScale p"
      "initialPositions t = initialPositions p" "page_count t = n"
      "length (page_positions t) = n * 3"
      "\<And>j. j < i * 3 \<Longrightarrow> page_positions t ! j = initialPositions p ! j * c"
      by (simp_all add: P_def)
    have len: "length (initialPositions p) = n * 3" using assms(1) by (simp add: n_def)
    have r: "i * 3 < n * 3" "i * 3 + 1 < n * 3" "i * 3 + 2 < n * 3"
      using that(1) by simp_all
    let ?ps = "(page_positions t)[i * 3 := initialPositions p ! (i * 3) * c,
        i * 3 + 1 := initialPositions p ! (i * 3 + 1) * c,
        i * 3 + 2 := initialPositions p ! (i * 3 + 2) * c]"
    have b: "body i t = Inr (t \<lparr> page_positions := ?ps \<rparr>)"
      using r inv(1,3,5) len
      by (simp add: body_def Let_def and_then_def f32_store_def scaled_def js_read_def)
    have nth: "?ps ! j = initialPositions p ! j * c" if jb: "j < Suc i * 3" for j
    proof -
      have "j < i * 3 \<or> j = i * 3 \<or> j = i * 3 + 1 \<or> j = i * 3 + 2"
        using jb by arith
      then consider "j < i * 3" | "j = i * 3" | "j = i * 3 + 1" | "j = i * 3 + 2"
        by blast
      then show ?thesis
        using r inv(5) inv(6)[of j] by cases (simp_all add: nth_list_update)
    qed
    show ?thesis
      unfolding b P_def using inv(1-5) nth by simp
  qed
  from for_loop_invariant[of P p1 n body, OF start step]
  obtain q where q: "for_loop n body p1 = Inr q" "P n q" by blast
  have "animate_page p = Inr q"
    using q(1) by (simp add: animate_page_def Let_def body_def p1_def c_def n_def)
  then show ?thesis
    using q(2) by (simp add: P_def c_def n_def)
qed

text \<open>
  Claim C9.  In the binary variant a hand of 21 landmarks is classified open exactly when
  at least 3 of the 5 finger tests hold; a frame with an open hand sets the target scale
  to 1.5 and one with a closed hand to 0.3; each animation frame moves the scale by 0.05
  of its distance to the target and sets every position to the initial position times
  the scale.
\<close>

theorem binary_threshold_variant:
  assumes "21 \<le> length landmarks"
    and "length (initialPositions p) = page_count p * 3"
    and "length (page_positions p) = page_count p * 3"
  shows "detectHandGesture landmarks =
           Inr (if 3 \<le> length (filter (\<lambda>b. b) (extended_fingers landmarks)) then Open else Closed) \<and>
         onHandsResults ((landmarks, score) # rest) p =
           Inr (if 3 \<le> length (filter (\<lambda>b. b) (extended_fingers landmarks))
                then p \<lparr> isHandOpen := True, targetScale := 1.5 \<rparr>
                else p \<lparr> isHandOpen := False, targetScale := 0.3 \<rparr>) \<and>
         (\<exists>q. animate_page p = Inr q \<and>
            currentScale q = currentScale p + (targetScale p - currentScale p) * 0.05 \<and>
            targetScale q = targetScale p \<and>
            (\<forall>j < page_count p * 3. page_positions q ! j = initialPositions p ! j * currentScale q))"
proof -
  have d: "detectHandGesture landmarks =
           Inr (if 3 \<le> length (filter (\<lambda>b. b) (extended_fingers landmarks)) then Open else Closed)"
    using assms(1) by (simp add: detectHandGesture_def extendedCount_filter)
  have h: "onHandsResults ((landmarks, score) # rest) p =
           Inr (if 3 \<le> length (filter (\<lambda>b. b) (extended_fingers landmarks))
                then p \<lparr> isHandOpen := True, targetScale := 1.5 \<rparr>
                else p \<lparr> isHandOpen := False, targetScale := 0.3 \<rparr>)"
    by (simp add: onHandsResults_def d)
  from animate_page_scaled[OF assms(2,3)] d h show ?thesis by blast
qed

text \<open>
  The open hand on a page with one particle, and two hands on which the thumb decides:
  with its tip 0.2 in front of its base in depth the hand is open, with its tip 0.05 in
  front it is closed.
\<close>

theorem binary_threshold_variant_witness:
  "21 \<le> length open_hand \<and>
   length (initialPositions small_page) = page_count small_page * 3 \<and>
   length (page_positions small_page) = page_count small_page * 3 \<and>
   extended_fingers open_hand = [True, True, True, True, True] \<and>
   detectHandGesture open_hand = Inr Open \<and>
   onHandsResults [(open_hand, 1)] small_page = Inr (small_page \<lparr> isHandOpen := True, targetScale := 1.5 \<rparr>) \<and>
   (\<exists>q. animate_page small_page = Inr q \<and> currentScale q = 1.025 \<and>
      page_positions q ! 0 = 2.05) \<and>
   21 \<le> length (thumb_forward 0.2) \<and>
   extended_fingers (thumb_forward 0.2) = [True, True, True, False, False] \<and>
   detectHandGesture (thumb_forward 0.2) = Inr Open \<and>
   onHandsResults [(thumb_forward 0.2, 1)] small_page =
     Inr (small_page \<lparr> isHandOpen := True, targetScale := 1.5 \<rparr>) \<and>
   21 \<le> length (thumb_forward 0.05) \<and>
   extended_fingers (thumb_forward 0.05) = [False, True, True, False, False] \<and>
   detectHandGesture (thumb_forward 0.05) = Inr Closed \<and>
   onHandsResults [(thumb_forward 0.05, 1)] small_page =
     Inr (small_page \<lparr> isHandOpen := False, targetScale := 0.3 \<rparr>)"
proof -
  have a: "21 \<le> length open_hand" by (simp add: open_hand_def Let_def)
  have b: "length (initialPositions small_page) = page_count small_page * 3"
    "length (page_positions small_page) = page_count small_page * 3"
    by (simp_all add: small_page_def)
  have "(1 / 10 :: real) < sqrt ((3 / 10 - 7 / 10)\<^sup>2)"
    by (rule real_less_rsqrt) (simp add: power2_eq_square)
  then have e: "extended_fingers open_hand = [True, True, True, True, True]"
    by (simp add: extended_fingers_def open_hand_def Let_def)
  from binary_threshold_variant[OF a b, of 1 "[]"]
  have d: "detectHandGesture open_hand = Inr Open"
    and h: "onHandsResults [(open_hand, 1)] small_page =
        Inr (small_page \<lparr> isHandOpen := True, targetScale := 1.5 \<rparr>)"
    and "\<exists>q. animate_page small_page = Inr q \<and>
            currentScale q = currentScale small_page + (targetScale small_page - currentScale small_page) * 0.05 \<and>
            targetScale q = targetScale small_page \<and>
            (\<forall>j < page_count small_page * 3. page_positions q ! j = initialPositions small_page ! j * currentScale q)"
    by (simp_all add: e)
  then obtain q where q: "animate_page small_page = Inr q"
    "currentScale q = currentScale small_page + (targetScale small_page - currentScale small_page) * 0.05"
    "\<And>j. j < page_count small_page * 3 \<Longrightarrow> page_positions q ! j = initialPositions small_page ! j * currentScale q"
    by blast
  have s: "currentScale q = 1.025" using q(2) by (simp add: small_page_def)
  have p0: "page_positions q ! 0 = 2.05" using q(3)[of 0] s by (simp add: small_page_def)
  have a2: "21 \<le> length (thumb_forward c)" for c by (simp add: thumb_forward_def Let_def)
  have e2: "extended_fingers (thumb_forward 0.2) = [True, True, True, False, False]"
    "extended_fingers (thumb_forward 0.05) = [False, True, True, False, False]"
    by (simp_all add: extended_fingers_thumb_forward)
  from binary_threshold_variant[OF a2[of "0.2"] b, of 1 "[]", unfolded e2(1)]
  have d2: "detectHandGesture (thumb_forward 0.2) = Inr Open"
    and h2: "onHandsResults [(thumb_forward 0.2, 1)] small_page =
        Inr (small_page \<lparr> isHandOpen := True, targetScale := 1.5 \<rparr>)"
    by simp_all
  from binary_threshold_variant[OF a2[of "0.05"] b, of 1 "[]", unfolded e2(2)]
  have d3: "detectHandGesture (thumb_forward 0.05) = Inr Closed"
    and h3: "onHandsResults [(thumb_forward 0.05, 1)] small_page =
        Inr (small_page \<lparr> isHandOpen := False, targetScale := 0.3 \<rparr>)"
    by simp_all
  show ?thesis
    by (intro conjI a b e d h exI[of _ q] q(1) s p0 a2 e2 d2 h2 d3 h3)
qed

text \<open>A frame without a hand sets the target scale to the neutral 1.0.\<close>

lemma onHandsResults_no_hand: "onHandsResults [] p = Inr (p \<lparr> targetScale := 1.0 \<rparr>)"
  by (simp add: onHandsResults_def)

section \<open>Properties of the particle engine\<close>

subsection \<open>The pattern generator\<close>

lemma snd_patternPoint: "snd (patternPoint pattern n i rnd k) = k + draws pattern"
  by (cases pattern) (simp_all add: patternPoint_def draws_def Let_def)

lemma fst_patternPoint_cong:
  assumes "\<And>j. rnd (k + j) = rnd' (k' + j)"
  shows "fst (patternPoint pattern n i rnd k) = fst (patternPoint pattern n i rnd' k')"
  using assms[of 0] assms[of 1] assms[of 2] assms[of 3] assms[of 4]
  by (cases pattern) (simp_all add: patternPoint_def Let_def)

lemma triple_update:
  assumes "i * 3 + 2 < length ps"
  shows "ps[i * 3 := x, i * 3 + 1 := y, i * 3 + 2 := z] ! (i * 3) = x"
    "ps[i * 3 := x, i * 3 + 1 := y, i * 3 + 2 := z] ! (i * 3 + 1) = y"
    "ps[i * 3 := x, i * 3 + 1 := y, i * 3 + 2 := z] ! (i * 3 + 2) = z"
    "m < i \<Longrightarrow> ps[i * 3 := x, i * 3 + 1 := y, i * 3 + 2 := z] ! (m * 3) = ps ! (m * 3)"
    "m < i \<Longrightarrow> ps[i * 3 := x, i * 3 + 1 := y, i * 3 + 2 := z] ! (m * 3 + 1) = ps ! (m * 3 + 1)"
    "m < i \<Longrightarrow> ps[i * 3 := x, i * 3 + 1 := y, i * 3 + 2 := z] ! (m * 3 + 2) = ps ! (m * 3 + 2)"
  using assms by (simp_all add: nth_list_update)

lemma generatePattern_closed:
  "\<exists>ps k. generatePattern pattern s = (ps, s \<lparr> drawn := k \<rparr>) \<and>
     length ps = particleCount s * 3 \<and>
     k = drawn s + draws pattern * particleCount s \<and>
     (\<forall>i < particleCount s.
        (ps ! (i * 3), ps ! (i * 3 + 1), ps ! (i * 3 + 2)) =
          fst (patternPoint pattern (particleCount s) i (randoms s) (drawn s + draws pattern * i)))"
proof -
  define n where "n = particleCount s"
  define body where "body =
          (\<lambda>i (ps :: real list, k).
             let i3 = i * 3;
                 ((x, y, z), k') = patternPoint pattern (particleCount s) i (randoms s) k
             in (ps[i3 := x, i3 + 1 := y, i3 + 2 := z], k'))"
  define P where "P i st \<longleftrightarrow>
      length (fst st) = n * 3 \<and> snd st = drawn s + draws pattern * i \<and>
      (\<forall>m < i. (fst st ! (m * 3), fst st ! (m * 3 + 1), fst st ! (m * 3 + 2)) =
          fst (patternPoint pattern n m (randoms s) (drawn s + draws pattern * m)))"
    for i and st :: "real list \<times> nat"
  have start: "P 0 (replicate (n * 3) 0, drawn s)"
    by (simp add: P_def)
  have step: "P (Suc i) (body i st)" if "i < n" "P i st" for i st
  proof -
    obtain ps k where st: "st = (ps, k)" by (cases st)
    from that(2) have len: "length ps = n * 3" and k: "k = drawn s + draws pattern * i"
      and old: "\<And>m. m < i \<Longrightarrow> (ps ! (m * 3), ps ! (m * 3 + 1), ps ! (m * 3 + 2)) =
          fst (patternPoint pattern n m (randoms s) (drawn s + draws pattern * m))"
      by (simp_all add: P_def st)
    obtain x y z k' where pp: "patternPoint pattern n i (randoms s) k = ((x, y, z), k')"
      by (metis prod_cases3 surj_pair)
    have k': "k' = drawn s + draws pattern * Suc i"
      using snd_patternPoint[of pattern n i "randoms s" k] pp k by simp
    have b: "body i st = (ps[i * 3 := x, i * 3 + 1 := y, i * 3 + 2 := z], k')"
      by (simp add: body_def st pp n_def[symmetric] Let_def)
    have r: "i * 3 + 2 < length ps" using that(1) len by simp
    have new: "(ps[i * 3 := x, i * 3 + 1 := y, i * 3 + 2 := z] ! (m * 3),
                ps[i * 3 := x, i * 3 + 1 := y, i * 3 + 2 := z] ! (m * 3 + 1),
                ps[i * 3 := x, i * 3 + 1 := y, i * 3 + 2 := z] ! (m * 3 + 2)) =
          fst (patternPoint pattern n m (randoms s) (drawn s + draws pattern * m))"
      if "m < Suc i" for m
    proof (cases "m = i")
      case True
      show ?thesis unfolding True triple_update(1-3)[OF r] using pp k by simp
    next
      case False
      with that have mi: "m < i" by simp
      show ?thesis unfolding triple_update(4-6)[OF r mi] by (rule old[OF mi])
    qed
    show ?thesis
      unfolding b P_def using len k' new by simp
  qed
  have fin: "P n (for_each n body (replicate (n * 3) 0, drawn s))"
    by (rule for_each_invariant[of P, OF start step])
  obtain ps k where res: "for_each n body (replicate (n * 3) 0, drawn s) = (ps, k)"
    by (cases "for_each n body (replicate (n * 3) 0, drawn s)")
  have gp: "generatePattern pattern s = (ps, s \<lparr> drawn := k \<rparr>)"
    using res by (simp add: generatePattern_def body_def n_def)
  have F: "P n (ps, k)" using fin res by simp
  then have "length ps = n * 3" "k = drawn s + draws pattern * n"
    "\<forall>i < n. (ps ! (i * 3), ps ! (i * 3 + 1), ps ! (i * 3 + 2)) =
          fst (patternPoint pattern n i (randoms s) (drawn s + draws pattern * i))"
    by (simp_all add: P_def)
  then show ?thesis
    using gp unfolding n_def by blast
qed

subsection \<open>Targets from a gesture\<close>

lemma js_read_in: "i < length xs \<Longrightarrow> js_read xs i = Inr (xs ! i)"
  by (simp add: js_read_def)

lemma js_write_in: "i < length xs \<Longrightarrow> js_write xs i v = Inr (xs[i := v])"
  by (simp add: js_write_def)

lemma and_then_Inr: "and_then (Inr a) f = f a"
  by (simp add: and_then_def)

lemma all_coordinates:
  fixes n j :: nat
  assumes "\<And>i. i < n \<Longrightarrow> Q (i * 3) \<and> Q (i * 3 + 1) \<and> Q (i * 3 + 2)" "j < n * 3"
  shows "Q j"
proof -
  have "j div 3 < n" using assms(2) by (simp add: less_mult_imp_div_less)
  from assms(1)[OF this] have q: "Q (j div 3 * 3)" "Q (j div 3 * 3 + 1)" "Q (j div 3 * 3 + 2)"
    by simp_all
  have "j mod 3 = 0 \<or> j mod 3 = 1 \<or> j mod 3 = 2" by arith
  moreover have "j = j div 3 * 3 + j mod 3" by simp
  ultimately have "j = j div 3 * 3 \<or> j = j div 3 * 3 + 1 \<or> j = j div 3 * 3 + 2"
    by presburger
  then show ?thesis using q by metis
qed

lemma updateGestureInfluence_closed:
  assumes "length (originalPositions s) = particleCount s * 3"
    and "length (targetPositions s) = particleCount s * 3"
  shows "\<exists>s'. updateGestureInfluence opn pos sens s = Inr s' \<and>
     length (targetPositions s') = particleCount s * 3 \<and>
     originalPositions s' = originalPositions s \<and>
     positions s' = positions s \<and>
     particleCount s' = particleCount s \<and>
     drawn s' = drawn s + (if opn > 0.7 then particleCount s * 3 else 0) \<and>
     (\<forall>i < particleCount s.
        targetPositions s' ! (i * 3) =
          originalPositions s ! (i * 3) * (0.3 + opn * 1.7)
            + jitter opn sens (randoms s (drawn s + i * 3))
            + (pt_x pos - 0.5) * 20 * (sens * 0.3) \<and>
        targetPositions s' ! (i * 3 + 1) =
          originalPositions s ! (i * 3 + 1) * (0.3 + opn * 1.7)
            + jitter opn sens (randoms s (drawn s + i * 3 + 1))
            + (0.5 - pt_y pos) * 20 * (sens * 0.3) \<and>
        targetPositions s' ! (i * 3 + 2) =
          originalPositions s ! (i * 3 + 2) * (0.3 + opn * 1.7)
            + jitter opn sens (randoms s (drawn s + i * 3 + 2)))"
proof -
  define n where "n = particleCount s"
  define orig where "orig = originalPositions s"
  define rnd where "rnd = randoms s"
  define X where "X i = orig ! (i * 3) * (0.3 + opn * 1.7)
            + jitter opn sens (rnd (drawn s + i * 3))
            + (pt_x pos - 0.5) * 20 * (sens * 0.3)" for i
  define Y where "Y i = orig ! (i * 3 + 1) * (0.3 + opn * 1.7)
            + jitter opn sens (rnd (drawn s + i * 3 + 1))
            + (0.5 - pt_y pos) * 20 * (sens * 0.3)" for i
  define Z where "Z i = orig ! (i * 3 + 2) * (0.3 + opn * 1.7)
            + jitter opn sens (rnd (drawn s + i * 3 + 2))" for i
  define s0 where "s0 = s \<lparr> gestureInfluence := opn, gesturePosition := pos \<rparr>"
  define body where "body =
           (\<lambda>i (q :: particle_system).
              let i3 = i * 3 in
              and_then (js_read (originalPositions q) i3) (\<lambda>ox.
              and_then (js_read (originalPositions q) (i3 + 1)) (\<lambda>oy.
              and_then (js_read (originalPositions q) (i3 + 2)) (\<lambda>oz.
                let scale = 0.3 + opn * 1.7;
                    tx = ox * scale;
                    ty = oy * scale;
                    tz = oz * scale;
                    k = drawn q;
                    (tx, ty, tz, k) =
                      (if opn > 0.7
                       then let dispersion = (opn - 0.7) * 3 * sens
                            in (tx + (randoms q k - 0.5) * dispersion * 10,
                                ty + (randoms q (k + 1) - 0.5) * dispersion * 10,
                                tz + (randoms q (k + 2) - 0.5) * dispersion * 10,
                                k + 3)
                       else (tx, ty, tz, k));
                    gesturePull = sens * 0.3;
                    tx = tx + (pt_x pos - 0.5) * 20 * gesturePull;
                    ty = ty + (0.5 - pt_y pos) * 20 * gesturePull
                in and_then (js_write (targetPositions q) i3 tx) (\<lambda>t1.
                   and_then (js_write t1 (i3 + 1) ty) (\<lambda>t2.
                   and_then (js_write t2 (i3 + 2) tz) (\<lambda>t3.
                   Inr (q \<lparr> targetPositions := t3, drawn := k \<rparr>))))))))"
  define P where "P i q \<longleftrightarrow>
      length (targetPositions q) = n * 3 \<and> originalPositions q = orig \<and>
      positions q = positions s \<and> particleCount q = n \<and> randoms q = rnd \<and>
      drawn q = drawn s + (if opn > 0.7 then i * 3 else 0) \<and>
      (\<forall>m < i. targetPositions q ! (m * 3) = X m \<and> targetPositions q ! (m * 3 + 1) = Y m \<and>
                targetPositions q ! (m * 3 + 2) = Z m)"
    for i and q :: particle_system
  have lo: "length orig = n * 3" using assms(1) by (simp add: orig_def n_def)
  have start: "P 0 s0"
    using assms(2) by (simp add: P_def s0_def n_def orig_def rnd_def)
  have step: "\<exists>t'. body i t = Inr t' \<and> P (Suc i) t'" if "i < n" "P i t" for i t
  proof -
    from that(2) have inv: "length (targetPositions t) = n * 3" "originalPositions t = orig"
      "positions t = positions s" "particleCount t = n" "randoms t = rnd"
      "drawn t = drawn s + (if opn > 0.7 then i * 3 else 0)"
      and old: "\<And>m. m < i \<Longrightarrow> targetPositions t ! (m * 3) = X m \<and>
          targetPositions t ! (m * 3 + 1) = Y m \<and> targetPositions t ! (m * 3 + 2) = Z m"
      by (simp_all add: P_def)
    have r: "i * 3 < n * 3" "i * 3 + 1 < n * 3" "i * 3 + 2 < n * 3"
      using that(1) by simp_all
    let ?tg = "(targetPositions t)[i * 3 := X i, i * 3 + 1 := Y i, i * 3 + 2 := Z i]"
    let ?k = "drawn s + (if opn > 0.7 then Suc i * 3 else 0)"
    have b: "body i t = Inr (t \<lparr> targetPositions := ?tg, drawn := ?k \<rparr>)"
    proof (cases "opn > 0.7")
      case True
      then show ?thesis
        using r inv lo
        by (simp add: body_def Let_def js_read_in js_write_in and_then_Inr X_def Y_def Z_def
            jitter_def add.assoc)
    next
      case False
      then show ?thesis
        using r inv lo
        by (simp add: body_def Let_def js_read_in js_write_in and_then_Inr X_def Y_def Z_def
            jitter_def)
    qed
    have rr: "i * 3 + 2 < length (targetPositions t)" using r inv(1) by simp
    have new: "?tg ! (m * 3) = X m \<and> ?tg ! (m * 3 + 1) = Y m \<and> ?tg ! (m * 3 + 2) = Z m"
      if "m < Suc i" for m
    proof (cases "m = i")
      case True
      show ?thesis unfolding True triple_update(1-3)[OF rr] by simp
    next
      case False
      with that have mi: "m < i" by simp
      show ?thesis unfolding triple_update(4-6)[OF rr mi] by (rule old[OF mi])
    qed
    show ?thesis
      unfolding b P_def using inv new by simp
  qed
  from for_loop_invariant[of P s0 n body, OF start step]
  obtain s' where s': "for_loop n body s0 = Inr s'" "P n s'" by blast
  have run: "updateGestureInfluence opn pos sens s = Inr s'"
    using s'(1) by (simp add: updateGestureInfluence_def Let_def body_def s0_def n_def)
  show ?thesis
    apply (rule exI[of _ s'])
    using run s'(2) unfolding P_def X_def Y_def Z_def n_def orig_def rnd_def by simp
qed

lemma jitter_bound:
  assumes "0 \<le> u" "u < 1" "0 \<le> sens"
  shows "\<bar>jitter 1 sens u\<bar> \<le> 3 * sens * 10"
proof -
  have "\<bar>jitter 1 sens u\<bar> = \<bar>u - 0.5\<bar> * (9 * sens)"
    using assms(3) by (simp add: jitter_def abs_mult)
  also have "\<dots> \<le> 0.5 * (9 * sens)"
  proof (rule mult_right_mono)
    show "\<bar>u - 0.5\<bar> \<le> 0.5" using assms(1,2) by linarith
    show "0 \<le> 9 * sens" using assms(3) by simp
  qed
  also have "\<dots> \<le> 3 * sens * 10"
    using assms(3) by simp
  finally show ?thesis .
qed

text \<open>
  Claim C1.  On a system whose arrays agree with the particle count,
  \<^verbatim>\<open>updateGestureInfluence\<close> with openness 0, position \<open>(0.5, 0.5)\<close> and sensitivity 1 sets
  every target coordinate to exactly 0.3 times the original one and draws no random
  value; with openness 1 every target coordinate is 2.0 times the original one plus the
  jitter of its random draw, whose magnitude is at most \<open>3 * sensitivity * 10\<close>; in
  general the target is the scaled original plus the jitter plus the pull towards the
  hand, the jitter is nonzero only for an openness above 0.7, and it can be nonzero at
  openness 1.
\<close>

theorem gesture_targets:
  assumes "arrays_agree s"
    and "\<forall>k. 0 \<le> randoms s k \<and> randoms s k < 1"
    and "0 \<le> sens"
  shows "(\<exists>s'. updateGestureInfluence 0 centre 1 s = Inr s' \<and> drawn s' = drawn s \<and>
            (\<forall>j < particleCount s * 3. targetPositions s' ! j = 0.3 * originalPositions s ! j)) \<and>
         (\<exists>s'. updateGestureInfluence 1 centre sens s = Inr s' \<and>
            (\<forall>j < particleCount s * 3.
               targetPositions s' ! j =
                 2.0 * originalPositions s ! j + jitter 1 sens (randoms s (drawn s + j)) \<and>
               \<bar>jitter 1 sens (randoms s (drawn s + j))\<bar> \<le> 3 * sens * 10)) \<and>
         (\<forall>opn pos. \<exists>s'. updateGestureInfluence opn pos sens s = Inr s' \<and>
            drawn s' = drawn s + (if opn > 0.7 then particleCount s * 3 else 0) \<and>
            (\<forall>i < particleCount s.
               targetPositions s' ! (i * 3) =
                 originalPositions s ! (i * 3) * (0.3 + opn * 1.7)
                   + jitter opn sens (randoms s (drawn s + i * 3))
                   + (pt_x pos - 0.5) * 20 * (sens * 0.3) \<and>
               targetPositions s' ! (i * 3 + 1) =
                 originalPositions s ! (i * 3 + 1) * (0.3 + opn * 1.7)
                   + jitter opn sens (randoms s (drawn s + i * 3 + 1))
                   + (0.5 - pt_y pos) * 20 * (sens * 0.3) \<and>
               targetPositions s' ! (i * 3 + 2) =
                 originalPositions s ! (i * 3 + 2) * (0.3 + opn * 1.7)
                   + jitter opn sens (randoms s (drawn s + i * 3 + 2)))) \<and>
         (\<forall>opn u. jitter opn sens u \<noteq> 0 \<longrightarrow> opn > 0.7) \<and>
         (sens \<noteq> 0 \<longrightarrow> jitter 1 sens 0 \<noteq> 0)"
proof -
  have lo: "length (originalPositions s) = particleCount s * 3"
    and lt: "length (targetPositions s) = particleCount s * 3"
    using assms(1) by (simp_all add: arrays_agree_def)
  note closed = updateGestureInfluence_closed[OF lo lt]
  have p1: "\<exists>s'. updateGestureInfluence 0 centre 1 s = Inr s' \<and> drawn s' = drawn s \<and>
            (\<forall>j < particleCount s * 3. targetPositions s' ! j = 0.3 * originalPositions s ! j)"
  proof -
    from closed[of 0 centre 1] obtain s' where
      run: "updateGestureInfluence 0 centre 1 s = Inr s'"
      and d0: "drawn s' = drawn s + (if (0::real) > 0.7 then particleCount s * 3 else 0)"
      and c0: "\<forall>i < particleCount s.
        targetPositions s' ! (i * 3) =
          originalPositions s ! (i * 3) * (0.3 + 0 * 1.7)
            + jitter 0 1 (randoms s (drawn s + i * 3))
            + (pt_x centre - 0.5) * 20 * (1 * 0.3) \<and>
        targetPositions s' ! (i * 3 + 1) =
          originalPositions s ! (i * 3 + 1) * (0.3 + 0 * 1.7)
            + jitter 0 1 (randoms s (drawn s + i * 3 + 1))
            + (0.5 - pt_y centre) * 20 * (1 * 0.3) \<and>
        targetPositions s' ! (i * 3 + 2) =
          originalPositions s ! (i * 3 + 2) * (0.3 + 0 * 1.7)
            + jitter 0 1 (randoms s (drawn s + i * 3 + 2))"
      by blast
    have d: "drawn s' = drawn s" using d0 by simp
    have c: "targetPositions s' ! (i * 3) = 0.3 * originalPositions s ! (i * 3) \<and>
          targetPositions s' ! (i * 3 + 1) = 0.3 * originalPositions s ! (i * 3 + 1) \<and>
          targetPositions s' ! (i * 3 + 2) = 0.3 * originalPositions s ! (i * 3 + 2)"
      if "i < particleCount s" for i
      using c0 that by (simp add: centre_def jitter_def)
    have "targetPositions s' ! j = 0.3 * originalPositions s ! j" if "j < particleCount s * 3" for j
      by (rule all_coordinates[where Q = "\<lambda>j. targetPositions s' ! j = 0.3 * originalPositions s ! j",
            OF c that])
    then show ?thesis using run d by blast
  qed
  have p2: "\<exists>s'. updateGestureInfluence 1 centre sens s = Inr s' \<and>
            (\<forall>j < particleCount s * 3.
               targetPositions s' ! j =
                 2.0 * originalPositions s ! j + jitter 1 sens (randoms s (drawn s + j)) \<and>
               \<bar>jitter 1 sens (randoms s (drawn s + j))\<bar> \<le> 3 * sens * 10)"
  proof -
    let ?Q = "\<lambda>s' j. targetPositions s' ! j =
        2.0 * originalPositions s ! j + jitter 1 sens (randoms s (drawn s + j))"
    from closed[of 1 centre sens] obtain s' where
      run: "updateGestureInfluence 1 centre sens s = Inr s'"
      and c0: "\<forall>i < particleCount s.
        targetPositions s' ! (i * 3) =
          originalPositions s ! (i * 3) * (0.3 + 1 * 1.7)
            + jitter 1 sens (randoms s (drawn s + i * 3))
            + (pt_x centre - 0.5) * 20 * (sens * 0.3) \<and>
        targetPositions s' ! (i * 3 + 1) =
          originalPositions s ! (i * 3 + 1) * (0.3 + 1 * 1.7)
            + jitter 1 sens (randoms s (drawn s + i * 3 + 1))
            + (0.5 - pt_y centre) * 20 * (sens * 0.3) \<and>
        targetPositions s' ! (i * 3 + 2) =
          originalPositions s ! (i * 3 + 2) * (0.3 + 1 * 1.7)
            + jitter 1 sens (randoms s (drawn s + i * 3 + 2))"
      by blast
    have c: "?Q s' (i * 3) \<and> ?Q s' (i * 3 + 1) \<and> ?Q s' (i * 3 + 2)"
      if "i < particleCount s" for i
      using c0 that by (simp add: centre_def add.assoc)
    have "?Q s' j" if "j < particleCount s * 3" for j
      by (rule all_coordinates[where Q = "?Q s'", OF c that])
    moreover have "\<bar>jitter 1 sens (randoms s (drawn s + j))\<bar> \<le> 3 * sens * 10" for j
      using assms(2,3) by (intro jitter_bound) auto
    ultimately show ?thesis using run by blast
  qed
  have p3: "\<forall>opn pos. \<exists>s'. updateGestureInfluence opn pos sens s = Inr s' \<and>
            drawn s' = drawn s + (if opn > 0.7 then particleCount s * 3 else 0) \<and>
            (\<forall>i < particleCount s.
               targetPositions s' ! (i * 3) =
                 originalPositions s ! (i * 3) * (0.3 + opn * 1.7)
                   + jitter opn sens (randoms s (drawn s + i * 3))
                   + (pt_x pos - 0.5) * 20 * (sens * 0.3) \<and>
               targetPositions s' ! (i * 3 + 1) =
                 originalPositions s ! (i * 3 + 1) * (0.3 + opn * 1.7)
                   + jitter opn sens (randoms s (drawn s + i * 3 + 1))
                   + (0.5 - pt_y pos) * 20 * (sens * 0.3) \<and>
               targetPositions s' ! (i * 3 + 2) =
                 originalPositions s ! (i * 3 + 2) * (0.3 + opn * 1.7)
                   + jitter opn sens (randoms s (drawn s + i * 3 + 2)))"
    using closed by blast
  have p4: "\<forall>opn u. jitter opn sens u \<noteq> 0 \<longrightarrow> opn > 0.7"
    by (simp add: jitter_def)
  have p5: "sens \<noteq> 0 \<longrightarrow> jitter 1 sens 0 \<noteq> 0"
    by (simp add: jitter_def)
  show ?thesis
    by (intro conjI p1 p2 p3 p4 p5)
qed

text \<open>The single particle at \<open>(3, 6, 9)\<close>, whose draws are all 0.\<close>

theorem gesture_targets_witness:
  "arrays_agree tiny \<and> 0 \<le> randoms tiny 0 \<and> randoms tiny 0 < 1 \<and> (0::real) \<le> 1 \<and>
   (\<exists>s'. updateGestureInfluence 0 centre 1 tiny = Inr s' \<and>
      targetPositions s' ! 0 = 0.9 \<and> targetPositions s' ! 1 = 1.8 \<and> targetPositions s' ! 2 = 2.7) \<and>
   (\<exists>s'. updateGestureInfluence 1 centre 1 tiny = Inr s' \<and>
      targetPositions s' ! 0 = 6 + jitter 1 1 0 \<and> jitter 1 1 0 = - 4.5)"
proof -
  have a: "arrays_agree tiny" by (simp add: arrays_agree_def tiny_def)
  have r: "\<forall>k. 0 \<le> randoms tiny k \<and> randoms tiny k < 1" by (simp add: tiny_def)
  have s: "(0::real) \<le> 1" by simp
  from gesture_targets[OF a r s]
  have "\<exists>s'. updateGestureInfluence 0 centre 1 tiny = Inr s' \<and> drawn s' = drawn tiny \<and>
            (\<forall>j < particleCount tiny * 3. targetPositions s' ! j = 0.3 * originalPositions tiny ! j)"
    and "\<exists>s'. updateGestureInfluence 1 centre 1 tiny = Inr s' \<and>
            (\<forall>j < particleCount tiny * 3.
               targetPositions s' ! j =
                 2.0 * originalPositions tiny ! j + jitter 1 1 (randoms tiny (drawn tiny + j)) \<and>
               \<bar>jitter 1 1 (randoms tiny (drawn tiny + j))\<bar> \<le> 3 * 1 * 10)"
    by (rule conjunct1, rule conjunct2[THEN conjunct1])
  then obtain s0 s1 where
    s0: "updateGestureInfluence 0 centre 1 tiny = Inr s0"
      "\<And>j. j < particleCount tiny * 3 \<Longrightarrow> targetPositions s0 ! j = 0.3 * originalPositions tiny ! j"
    and s1: "updateGestureInfluence 1 centre 1 tiny = Inr s1"
      "\<And>j. j < particleCount tiny * 3 \<Longrightarrow> targetPositions s1 ! j =
                 2.0 * originalPositions tiny ! j + jitter 1 1 (randoms tiny (drawn tiny + j))"
    by blast
  have t0: "targetPositions s0 ! 0 = 0.9" "targetPositions s0 ! 1 = 1.8" "targetPositions s0 ! 2 = 2.7"
    using s0(2)[of 0] s0(2)[of 1] s0(2)[of 2] by (simp_all add: tiny_def)
  have t1: "targetPositions s1 ! 0 = 6 + jitter 1 1 0"
    using s1(2)[of 0] by (simp add: tiny_def)
  have j: "jitter 1 1 0 = - 4.5" by (simp add: jitter_def)
  have r0: "0 \<le> randoms tiny 0" "randoms tiny 0 < 1" using r by simp_all
  have e0: "\<exists>s'. updateGestureInfluence 0 centre 1 tiny = Inr s' \<and>
      targetPositions s' ! 0 = 0.9 \<and> targetPositions s' ! 1 = 1.8 \<and> targetPositions s' ! 2 = 2.7"
    using s0(1) t0 by blast
  have e1: "\<exists>s'. updateGestureInfluence 1 centre 1 tiny = Inr s' \<and>
      targetPositions s' ! 0 = 6 + jitter 1 1 0 \<and> jitter 1 1 0 = - 4.5"
    using s1(1) t1 j by blast
  show ?thesis
    by (intro conjI a r0 s e0 e1)
qed

subsection \<open>The operations and the position arrays\<close>

lemma setPattern_closed:
  assumes "arrays_agree s"
  shows "\<exists>s' ps k. setPattern pattern s = Inr s' \<and>
     generatePattern pattern (s \<lparr> currentPattern := pattern \<rparr>) =
       (ps, s \<lparr> currentPattern := pattern, drawn := k \<rparr>) \<and>
     originalPositions s' = ps \<and> targetPositions s' = ps \<and>
     positions s' = positions s \<and> particleCount s' = particleCount s \<and>
     currentPattern s' = pattern \<and> length ps = particleCount s * 3"
proof -
  define n where "n = particleCount s"
  from generatePattern_closed[of pattern "s \<lparr> currentPattern := pattern \<rparr>"]
  obtain ps k where gp: "generatePattern pattern (s \<lparr> currentPattern := pattern \<rparr>) =
       (ps, s \<lparr> currentPattern := pattern, drawn := k \<rparr>)"
    and len: "length ps = n * 3"
    by (auto simp add: n_def)
  define s1 where "s1 = s \<lparr> currentPattern := pattern, drawn := k \<rparr>"
  define body where "body =
           (\<lambda>i (q :: particle_system).
              and_then (js_read ps i) (\<lambda>v.
              and_then (js_write (targetPositions q) i v) (\<lambda>tgt.
              and_then (js_read ps i) (\<lambda>w.
              and_then (js_write (originalPositions q) i w) (\<lambda>orig.
              Inr (q \<lparr> targetPositions := tgt, originalPositions := orig \<rparr>))))))"
  define P where "P i q \<longleftrightarrow>
      particleCount q = n \<and> positions q = positions s \<and> currentPattern q = pattern \<and>
      length (targetPositions q) = n * 3 \<and> length (originalPositions q) = n * 3 \<and>
      (\<forall>j < i. targetPositions q ! j = ps ! j \<and> originalPositions q ! j = ps ! j)"
    for i and q :: particle_system
  have start: "P 0 s1"
    using assms by (simp add: P_def s1_def arrays_agree_def n_def)
  have step: "\<exists>t'. body i t = Inr t' \<and> P (Suc i) t'" if "i < n * 3" "P i t" for i t
  proof -
    from that(2) have inv: "particleCount t = n" "positions t = positions s"
      "currentPattern t = pattern" "length (targetPositions t) = n * 3"
      "length (originalPositions t) = n * 3"
      and old: "\<And>j. j < i \<Longrightarrow> targetPositions t ! j = ps ! j \<and> originalPositions t ! j = ps ! j"
      by (simp_all add: P_def)
    have b: "body i t = Inr (t \<lparr> targetPositions := (targetPositions t)[i := ps ! i],
                                  originalPositions := (originalPositions t)[i := ps ! i] \<rparr>)"
      using that(1) inv(4,5) len
      by (simp add: body_def js_read_in js_write_in and_then_Inr)
    have new: "(targetPositions t)[i := ps ! i] ! j = ps ! j \<and>
               (originalPositions t)[i := ps ! i] ! j = ps ! j" if "j < Suc i" for j
      using that old[of j] \<open>i < n * 3\<close> inv(4,5) by (cases "j = i") (simp_all add: less_Suc_eq)
    show ?thesis
      unfolding b P_def using inv new by simp
  qed
  from for_loop_invariant[of P s1 "n * 3" body, OF start step]
  obtain s' where s': "for_loop (n * 3) body s1 = Inr s'" "P (n * 3) s'" by blast
  have run: "setPattern pattern s = Inr s'"
    using s'(1) gp by (simp add: setPattern_def Let_def body_def s1_def n_def)
  have eq: "targetPositions s' = ps" "originalPositions s' = ps"
    using s'(2) len by (auto simp add: P_def intro: nth_equalityI)
  show ?thesis
    apply (rule exI[of _ s'], rule exI[of _ ps], rule exI[of _ k])
    using run gp eq s'(2) len by (simp add: P_def n_def)
qed

lemma reset_closed:
  assumes "arrays_agree s"
  shows "\<exists>s'. reset s = Inr s' \<and> targetPositions s' = originalPositions s \<and>
     originalPositions s' = originalPositions s \<and> positions s' = positions s \<and>
     particleCount s' = particleCount s"
proof -
  define n where "n = particleCount s"
  define s0 where "s0 = s \<lparr> gestureInfluence := 0, gesturePosition := \<lparr> pt_x = 0.5, pt_y = 0.5 \<rparr> \<rparr>"
  define body where "body =
              (\<lambda>i (q :: particle_system).
                 and_then (js_read (originalPositions q) i) (\<lambda>v.
                 and_then (js_write (targetPositions q) i v) (\<lambda>tgt.
                 Inr (q \<lparr> targetPositions := tgt \<rparr>))))"
  define P where "P i q \<longleftrightarrow>
      particleCount q = n \<and> positions q = positions s \<and>
      originalPositions q = originalPositions s \<and> length (targetPositions q) = n * 3 \<and>
      (\<forall>j < i. targetPositions q ! j = originalPositions s ! j)"
    for i and q :: particle_system
  have lo: "length (originalPositions s) = n * 3"
    using assms by (simp add: arrays_agree_def n_def)
  have start: "P 0 s0"
    using assms by (simp add: P_def s0_def arrays_agree_def n_def)
  have step: "\<exists>t'. body i t = Inr t' \<and> P (Suc i) t'" if "i < n * 3" "P i t" for i t
  proof -
    from that(2) have inv: "particleCount t = n" "positions t = positions s"
      "originalPositions t = originalPositions s" "length (targetPositions t) = n * 3"
      and old: "\<And>j. j < i \<Longrightarrow> targetPositions t ! j = originalPositions s ! j"
      by (simp_all add: P_def)
    have b: "body i t = Inr (t \<lparr> targetPositions := (targetPositions t)[i := originalPositions s ! i] \<rparr>)"
      using that(1) inv(3,4) lo
      by (simp add: body_def js_read_in js_write_in and_then_Inr)
    have new: "(targetPositions t)[i := originalPositions s ! i] ! j = originalPositions s ! j"
      if "j < Suc i" for j
      using that old[of j] \<open>i < n * 3\<close> inv(4) by (cases "j = i") (simp_all add: less_Suc_eq)
    show ?thesis
      unfolding b P_def using inv new by simp
  qed
  from for_loop_invariant[of P s0 "n * 3" body, OF start step]
  obtain s1 where s1: "for_loop (n * 3) body s0 = Inr s1" "P (n * 3) s1" by blast
  have run: "reset s = Inr (s1 \<lparr> rotation := (0, 0, 0) \<rparr>)"
    using s1(1) by (simp add: reset_def Let_def body_def s0_def n_def and_then_Inr)
  have eq: "targetPositions s1 = originalPositions s"
    using s1(2) lo by (auto simp add: P_def intro: nth_equalityI)
  show ?thesis
    apply (rule exI[of _ "s1 \<lparr> rotation := (0, 0, 0) \<rparr>"])
    using run eq s1(2) by (simp add: P_def n_def)
qed

lemma f32_add_length:
  "\<exists>ys. f32_add xs i (\<lambda>p. Inr (c p)) = Inr ys \<and> length ys = length xs"
  by (simp add: f32_add_def)

lemma animate_closed:
  assumes "arrays_agree s"
  shows "\<exists>s'. animate s = Inr s' \<and> length (positions s') = particleCount s * 3 \<and>
     targetPositions s' = targetPositions s \<and> originalPositions s' = originalPositions s \<and>
     particleCount s' = particleCount s"
proof (cases "isAnimating s")
  case False
  then show ?thesis using assms by (simp add: animate_def arrays_agree_def)
next
  case True
  define n where "n = particleCount s"
  define s0 where "s0 = s \<lparr> time := time s + 0.016 * animationSpeed s \<rparr>"
  define body where "body =
                (\<lambda>i (q :: particle_system).
                   let i3 = i * 3;
                       lerpFactor = 0.05 * animationSpeed q;
                       towards = (\<lambda>j p. and_then (js_read (targetPositions q) j)
                                            (\<lambda>tv. Inr ((tv - p) * lerpFactor)))
                   in and_then (f32_add (positions q) i3 (towards i3)) (\<lambda>p1.
                      and_then (f32_add p1 (i3 + 1) (towards (i3 + 1))) (\<lambda>p2.
                      and_then (f32_add p2 (i3 + 2) (towards (i3 + 2))) (\<lambda>p3.
                        let floatSpeed = 0.5 + (real i / real (particleCount q)) * 0.5;
                            floatAmount = 0.1 * animationSpeed q
                        in and_then (f32_add p3 (i3 + 1)
                                       (\<lambda>p. Inr (sin (time q * floatSpeed + real i * 0.1) * floatAmount)))
                             (\<lambda>p4. Inr (q \<lparr> positions := p4 \<rparr>))))))"
  define P where "P i q \<longleftrightarrow>
      particleCount q = n \<and> length (positions q) = n * 3 \<and>
      targetPositions q = targetPositions s \<and> originalPositions q = originalPositions s"
    for i :: nat and q :: particle_system
  have lt: "length (targetPositions s) = n * 3"
    using assms by (simp add: arrays_agree_def n_def)
  have start: "P 0 s0"
    using assms by (simp add: P_def s0_def arrays_agree_def n_def)
  have step: "\<exists>t'. body i t = Inr t' \<and> P (Suc i) t'" if "i < n" "P i t" for i t
  proof -
    from that(2) have inv: "particleCount t = n" "length (positions t) = n * 3"
      "targetPositions t = targetPositions s" "originalPositions t = originalPositions s"
      by (simp_all add: P_def)
    define towards where "towards = (\<lambda>j p. and_then (js_read (targetPositions t) j)
                                            (\<lambda>tv. Inr ((tv - p) * (0.05 * animationSpeed t))))"
    define c where "c j p = (targetPositions s ! j - p) * (0.05 * animationSpeed t)" for j p
    have tw: "towards j = (\<lambda>p. Inr (c j p))" if "j < n * 3" for j
      using that lt inv(3) by (simp only: towards_def js_read_in and_then_Inr c_def)
    have r: "i * 3 < n * 3" "i * 3 + 1 < n * 3" "i * 3 + 2 < n * 3"
      using that(1) by simp_all
    from f32_add_length[of "positions t" "i * 3" "c (i * 3)"]
    obtain p1 where p1: "f32_add (positions t) (i * 3) (towards (i * 3)) = Inr p1"
      "length p1 = n * 3" unfolding tw[OF r(1)] inv(2) by blast
    from f32_add_length[of p1 "i * 3 + 1" "c (i * 3 + 1)"]
    obtain p2 where p2: "f32_add p1 (i * 3 + 1) (towards (i * 3 + 1)) = Inr p2"
      "length p2 = n * 3" unfolding tw[OF r(2)] p1(2) by blast
    from f32_add_length[of p2 "i * 3 + 2" "c (i * 3 + 2)"]
    obtain p3 where p3: "f32_add p2 (i * 3 + 2) (towards (i * 3 + 2)) = Inr p3"
      "length p3 = n * 3" unfolding tw[OF r(3)] p2(2) by blast
    define fl where "fl = (\<lambda>p::real. sin (time t * (0.5 + (real i / real (particleCount t)) * 0.5)
                       + real i * 0.1) * (0.1 * animationSpeed t))"
    from f32_add_length[of p3 "i * 3 + 1" fl]
    obtain p4 where p4: "f32_add p3 (i * 3 + 1) (\<lambda>p. Inr (fl p)) = Inr p4" "length p4 = n * 3"
      unfolding p3(2) by blast
    have b: "body i t = Inr (t \<lparr> positions := p4 \<rparr>)"
      unfolding body_def Let_def
      using p1(1) p2(1) p3(1) p4(1) unfolding towards_def fl_def
      by (simp only: and_then_Inr)
    show ?thesis
      unfolding b P_def using inv p4(2) by simp
  qed
  from for_loop_invariant[of P s0 n body, OF start step]
  obtain s1 where s1: "for_loop n body s0 = Inr s1" "P n s1" by blast
  obtain rx ry rz where rot: "rotation s1 = (rx, ry, rz)" by (cases "rotation s1")
  have run: "animate s = Inr (s1 \<lparr> rotation := (rx, ry + 0.001 * animationSpeed s1, rz) \<rparr>)"
    using s1(1) True rot
    by (simp add: animate_def Let_def body_def s0_def n_def and_then_Inr)
  show ?thesis
    apply (rule exI[of _ "s1 \<lparr> rotation := (rx, ry + 0.001 * animationSpeed s1, rz) \<rparr>"])
    using run s1(2) by (simp add: P_def n_def)
qed

lemma f32_store_in: "i < length xs \<Longrightarrow> f32_store xs i (Inr v) = Inr (xs[i := v])"
  by (simp add: f32_store_def)

lemma take_three:
  assumes "i * 3 + 2 < length xs"
  shows "take (Suc i * 3) xs = take (i * 3) xs @ [xs ! (i * 3), xs ! (i * 3 + 1), xs ! (i * 3 + 2)]"
proof -
  have "take (Suc (Suc (Suc m))) xs = take m xs @ [xs ! m, xs ! Suc m, xs ! Suc (Suc m)]"
    if "Suc (Suc m) < length xs" for m
    using that by (simp add: take_Suc_conv_app_nth)
  note three = this[of "i * 3"]
  have e: "Suc i * 3 = Suc (Suc (Suc (i * 3)))" by simp
  have a: "Suc (Suc (i * 3)) < length xs" using assms by simp
  show ?thesis
    unfolding e using three[OF a] by simp
qed

lemma createParticles_closed:
  "\<exists>s' ps. createParticles shade s = Inr s' \<and>
     particleCount s' = particleCount s \<and> currentPattern s' = currentPattern s \<and>
     length ps = particleCount s * 3 \<and>
     originalPositions s' = ps \<and> targetPositions s' = ps \<and> positions s' = ps \<and>
     isAnimating s' = isAnimating s"
proof -
  define n where "n = particleCount s"
  define s0 where "s0 = s \<lparr> positions := replicate (n * 3) 0,
                   colors := replicate (n * 3) 0,
                   sizes := replicate n 0,
                   alphas := replicate n 0,
                   randomSeeds := replicate n 0,
                   rotation := (0, 0, 0),
                   targetPositions := [],
                   originalPositions := [],
                   velocities := [] \<rparr>"
  have pc: "particleCount s0 = n" by (simp add: s0_def n_def)
  from generatePattern_closed[of "currentPattern s0" s0]
  obtain pp k where gp: "generatePattern (currentPattern s0) s0 = (pp, s0 \<lparr> drawn := k \<rparr>)"
    and len0: "length pp = particleCount s0 * 3"
    by blast
  have len: "length pp = n * 3" using len0 pc by simp
  define s1 where "s1 = s0 \<lparr> drawn := k \<rparr>"
  define body where "body =
           (\<lambda>i (q :: particle_system).
              let i3 = i * 3 in
              and_then (f32_store (positions q) i3 (js_read pp i3)) (\<lambda>p1.
              and_then (f32_store p1 (i3 + 1) (js_read pp (i3 + 1))) (\<lambda>p2.
              and_then (f32_store p2 (i3 + 2) (js_read pp (i3 + 2))) (\<lambda>p3.
              and_then (js_read p3 i3) (\<lambda>a.
              and_then (js_read p3 (i3 + 1)) (\<lambda>b.
              and_then (js_read p3 (i3 + 2)) (\<lambda>c.
                let t = real i / real n;
                    (cr, cg, cb) = shade (primaryColor q) (secondaryColor q) t;
                    k = drawn q
                in Inr (q \<lparr> positions := p3,
                            originalPositions := originalPositions q @ [a, b, c],
                            targetPositions := targetPositions q @ [a, b, c],
                            velocities := velocities q @ [0, 0, 0],
                            colors := (colors q)[i3 := cr, i3 + 1 := cg, i3 + 2 := cb],
                            sizes := (sizes q)[i := particleSize q * (0.4 + randoms q k * 0.6)],
                            alphas := (alphas q)[i := 0.7 + randoms q (k + 1) * 0.3],
                            randomSeeds := (randomSeeds q)[i := randoms q (k + 2)],
                            drawn := k + 3 \<rparr>))))))))"
  define P where "P i q \<longleftrightarrow>
      particleCount q = n \<and> currentPattern q = currentPattern s \<and>
      isAnimating q = isAnimating s \<and>
      length (positions q) = n * 3 \<and>
      originalPositions q = take (i * 3) pp \<and> targetPositions q = take (i * 3) pp \<and>
      (\<forall>j < i * 3. positions q ! j = pp ! j)"
    for i and q :: particle_system
  have start: "P 0 s1"
    by (simp add: P_def s1_def s0_def n_def)
  have step: "\<exists>t'. body i t = Inr t' \<and> P (Suc i) t'" if "i < n" "P i t" for i t
  proof -
    from that(2) have inv: "particleCount t = n" "currentPattern t = currentPattern s"
      "isAnimating t = isAnimating s" "length (positions t) = n * 3"
      "originalPositions t = take (i * 3) pp" "targetPositions t = take (i * 3) pp"
      and old: "\<And>j. j < i * 3 \<Longrightarrow> positions t ! j = pp ! j"
      by (simp_all add: P_def)
    have r: "i * 3 < n * 3" "i * 3 + 1 < n * 3" "i * 3 + 2 < n * 3"
      using that(1) by simp_all
    obtain cr cg cb where sh: "shade (primaryColor t) (secondaryColor t) (real i / real n) = (cr, cg, cb)"
      by (metis prod_cases3)
    let ?p3 = "(positions t)[i * 3 := pp ! (i * 3), i * 3 + 1 := pp ! (i * 3 + 1),
        i * 3 + 2 := pp ! (i * 3 + 2)]"
    have rr: "i * 3 + 2 < length (positions t)" using r inv(4) by simp
    note tu = triple_update[OF rr, where x = "pp ! (i * 3)" and y = "pp ! (i * 3 + 1)"
        and z = "pp ! (i * 3 + 2)"]
    have l3: "length ?p3 = n * 3" using inv(4) by simp
    have b: "body i t =
        Inr (t \<lparr> positions := ?p3,
                 originalPositions := originalPositions t @ [pp ! (i * 3), pp ! (i * 3 + 1), pp ! (i * 3 + 2)],
                 targetPositions := targetPositions t @ [pp ! (i * 3), pp ! (i * 3 + 1), pp ! (i * 3 + 2)],
                 velocities := velocities t @ [0, 0, 0],
                 colors := (colors t)[i * 3 := cr, i * 3 + 1 := cg, i * 3 + 2 := cb],
                 sizes := (sizes t)[i := particleSize t * (0.4 + randoms t (drawn t) * 0.6)],
                 alphas := (alphas t)[i := 0.7 + randoms t (drawn t + 1) * 0.3],
                 randomSeeds := (randomSeeds t)[i := randoms t (drawn t + 2)],
                 drawn := drawn t + 3 \<rparr>)"
      unfolding body_def Let_def
      using r inv(4) len sh l3 tu(1-3)
      by (simp add: js_read_in f32_store_in and_then_Inr)
    have tk: "take (Suc i * 3) pp = take (i * 3) pp @ [pp ! (i * 3), pp ! (i * 3 + 1), pp ! (i * 3 + 2)]"
      using r(3) len by (intro take_three) simp
    have new: "?p3 ! j = pp ! j" if jb: "j < Suc i * 3" for j
    proof -
      have "j < i * 3 \<or> j = i * 3 \<or> j = i * 3 + 1 \<or> j = i * 3 + 2"
        using jb by arith
      then consider "j < i * 3" | "j = i * 3" | "j = i * 3 + 1" | "j = i * 3 + 2"
        by blast
      then show ?thesis
        using r inv(4) old[of j] by cases (simp_all add: nth_list_update)
    qed
    show ?thesis
      unfolding b P_def using inv(1-6) l3 new tk by simp
  qed
  from for_loop_invariant[of P s1 n body, OF start step]
  obtain s' where s': "for_loop n body s1 = Inr s'" "P n s'" by blast
  have cp: "currentPattern s0 = currentPattern s" by (simp add: s0_def)
  have run: "createParticles shade s = Inr s'"
    using s'(1) gp[unfolded cp]
    by (simp add: createParticles_def Let_def body_def s1_def s0_def[symmetric] n_def[symmetric])
  have eq: "originalPositions s' = pp" "targetPositions s' = pp" "positions s' = pp"
    using s'(2) len by (auto simp add: P_def intro: nth_equalityI)
  show ?thesis
    apply (rule exI[of _ s'], rule exI[of _ pp])
    using run eq s'(2) len by (simp add: P_def n_def)
qed

lemma setColors_frame:
  "particleCount (setColors shade primary secondary s) = particleCount s \<and>
   originalPositions (setColors shade primary secondary s) = originalPositions s \<and>
   targetPositions (setColors shade primary secondary s) = targetPositions s \<and>
   positions (setColors shade primary secondary s) = positions s"
proof -
  define s0 where "s0 = s \<lparr> primaryColor := primary, secondaryColor := secondary \<rparr>"
  define body where "body =
           (\<lambda>i (q :: particle_system).
              let i3 = i * 3;
                  t = real i / real (particleCount q);
                  (cr, cg, cb) = shade (primaryColor q) (secondaryColor q) t
              in q \<lparr> colors := (colors q)[i3 := cr, i3 + 1 := cg, i3 + 2 := cb] \<rparr>)"
  define P where "P i q \<longleftrightarrow>
      particleCount q = particleCount s \<and> originalPositions q = originalPositions s \<and>
      targetPositions q = targetPositions s \<and> positions q = positions s"
    for i :: nat and q :: particle_system
  have start: "P 0 s0" by (simp add: P_def s0_def)
  have step: "P (Suc i) (body i t)" if "i < particleCount s" "P i t" for i t
    using that(2) by (simp add: P_def body_def Let_def split: prod.splits)
  have "P (particleCount s) (for_each (particleCount s) body s0)"
    by (rule for_each_invariant[of P, OF start step])
  moreover have "setColors shade primary secondary s = for_each (particleCount s) body s0"
    by (simp add: setColors_def Let_def body_def s0_def)
  ultimately show ?thesis by (simp add: P_def)
qed

lemma replicate_three: "replicate 3 x = [x, x, x]"
  by (simp add: numeral_3_eq_3)

lemma generatePattern_tiny_spiral:
  "fst (generatePattern Spiral (tiny \<lparr> currentPattern := Spiral \<rparr>)) = [2, - 15, - 1]"
  by (simp add: generatePattern_def tiny_def patternPoint_def radius_def Let_def replicate_three)

text \<open>
  Claim C3.  \<^verbatim>\<open>setPattern\<close> writes the freshly generated pattern into both the original
  and the target positions, which are equal afterwards, and leaves the rendered positions
  as they were.
\<close>

theorem setPattern_regenerates:
  assumes "arrays_agree s"
  shows "\<exists>s'. setPattern pattern s = Inr s' \<and>
     originalPositions s' = fst (generatePattern pattern (s \<lparr> currentPattern := pattern \<rparr>)) \<and>
     targetPositions s' = originalPositions s' \<and>
     length (originalPositions s') = particleCount s * 3 \<and>
     positions s' = positions s \<and>
     currentPattern s' = pattern"
proof -
  from setPattern_closed[OF assms, of pattern]
  obtain s' ps k where "setPattern pattern s = Inr s'"
    "generatePattern pattern (s \<lparr> currentPattern := pattern \<rparr>) =
       (ps, s \<lparr> currentPattern := pattern, drawn := k \<rparr>)"
    "originalPositions s' = ps" "targetPositions s' = ps"
    "positions s' = positions s" "currentPattern s' = pattern" "length ps = particleCount s * 3"
    by blast
  then show ?thesis by simp
qed

text \<open>The single particle switched to the spiral.\<close>

theorem setPattern_regenerates_witness:
  "arrays_agree tiny \<and>
   (\<exists>s'. setPattern Spiral tiny = Inr s' \<and>
      originalPositions s' = [2, - 15, - 1] \<and> targetPositions s' = [2, - 15, - 1] \<and>
      positions s' = [3, 6, 9])"
proof -
  have a: "arrays_agree tiny" by (simp add: arrays_agree_def tiny_def)
  from setPattern_regenerates[OF a, of Spiral]
  obtain s' where s': "setPattern Spiral tiny = Inr s'"
    "originalPositions s' = fst (generatePattern Spiral (tiny \<lparr> currentPattern := Spiral \<rparr>))"
    "targetPositions s' = originalPositions s'"
    "positions s' = positions tiny"
    by blast
  have p: "positions tiny = [3, 6, 9]" by (simp add: tiny_def)
  have "\<exists>s'. setPattern Spiral tiny = Inr s' \<and>
      originalPositions s' = [2, - 15, - 1] \<and> targetPositions s' = [2, - 15, - 1] \<and>
      positions s' = [3, 6, 9]"
    using s' p generatePattern_tiny_spiral by auto
  with a show ?thesis by (rule conjI)
qed

lemma arrays_agree_createParticles:
  "\<exists>s'. createParticles shade s = Inr s' \<and> arrays_agree s' \<and> particleCount s' = particleCount s"
proof -
  from createParticles_closed[of shade s]
  obtain s' ps where "createParticles shade s = Inr s'" "particleCount s' = particleCount s"
    "length ps = particleCount s * 3" "originalPositions s' = ps" "targetPositions s' = ps"
    "positions s' = ps"
    by blast
  then show ?thesis by (simp add: arrays_agree_def)
qed

text \<open>
  Claim C4.  The three position arrays hold \<open>3 * particleCount\<close> numbers each after
  construction, and every operation started on arrays that agree returns with arrays
  that agree: \<^verbatim>\<open>setParticleCount\<close> (which allocates all three anew for the new count),
  \<^verbatim>\<open>setPattern\<close>, \<^verbatim>\<open>setColors\<close>, \<^verbatim>\<open>updateGestureInfluence\<close>, \<^verbatim>\<open>animate\<close>, \<^verbatim>\<open>reset\<close> and
  \<^verbatim>\<open>setAnimationSpeed\<close>.
\<close>

theorem position_arrays_agree:
  assumes "arrays_agree s"
  shows "(\<exists>s'. newParticleSystem shade rnd = Inr s' \<and> arrays_agree s' \<and> particleCount s' = 5000) \<and>
         (\<exists>s'. setParticleCount shade cnt s = Inr s' \<and> arrays_agree s' \<and> particleCount s' = cnt) \<and>
         (\<exists>s'. setPattern pattern s = Inr s' \<and> arrays_agree s' \<and> particleCount s' = particleCount s) \<and>
         (arrays_agree (setColors shade primary secondary s) \<and>
          particleCount (setColors shade primary secondary s) = particleCount s) \<and>
         (\<exists>s'. updateGestureInfluence opn pos sens s = Inr s' \<and> arrays_agree s' \<and>
            particleCount s' = particleCount s) \<and>
         (\<exists>s'. animate s = Inr s' \<and> arrays_agree s' \<and> particleCount s' = particleCount s) \<and>
         (\<exists>s'. reset s = Inr s' \<and> arrays_agree s' \<and> particleCount s' = particleCount s) \<and>
         (arrays_agree (setAnimationSpeed speed s) \<and>
          particleCount (setAnimationSpeed speed s) = particleCount s)"
proof -
  have lo: "length (originalPositions s) = particleCount s * 3"
    and lt: "length (targetPositions s) = particleCount s * 3"
    and lp: "length (positions s) = particleCount s * 3"
    using assms by (simp_all add: arrays_agree_def)
  have new: "\<exists>s'. newParticleSystem shade rnd = Inr s' \<and> arrays_agree s' \<and> particleCount s' = 5000"
  proof -
    define init where "init =
          \<lparr> particleCount = 5000,
            particleSize = 2,
            animationSpeed = 1.0,
            currentPattern = Sphere,
            primaryColor = 54527,
            secondaryColor = 16711892,
            targetPositions = [],
            originalPositions = [],
            velocities = [],
            gestureInfluence = 0,
            gesturePosition = \<lparr> pt_x = 0, pt_y = 0 \<rparr>,
            time = 0,
            isAnimating = True,
            positions = [],
            colors = [],
            sizes = [],
            alphas = [],
            randomSeeds = [],
            rotation = (0, 0, 0),
            randoms = rnd,
            drawn = 0 \<rparr>"
    from arrays_agree_createParticles[of shade init]
    obtain s1 where s1: "createParticles shade init = Inr s1" "arrays_agree s1"
      "particleCount s1 = particleCount init" by blast
    from animate_closed[OF s1(2)]
    obtain s2 where s2: "animate s1 = Inr s2" "length (positions s2) = particleCount s1 * 3"
      "targetPositions s2 = targetPositions s1" "originalPositions s2 = originalPositions s1"
      "particleCount s2 = particleCount s1" by blast
    have "newParticleSystem shade rnd = Inr s2"
      unfolding newParticleSystem_def init_def[symmetric]
      using s1(1) s2(1) by (simp only: and_then_Inr)
    moreover have "arrays_agree s2"
      using s1(2) s2(2-5) by (simp add: arrays_agree_def)
    moreover have "particleCount s2 = 5000"
      using s1(3) s2(5) by (simp add: init_def)
    ultimately show ?thesis by blast
  qed
  have cnt: "\<exists>s'. setParticleCount shade cnt s = Inr s' \<and> arrays_agree s' \<and> particleCount s' = cnt"
    using arrays_agree_createParticles[of shade "s \<lparr> particleCount := cnt \<rparr>"]
    by (simp add: setParticleCount_def)
  have pat: "\<exists>s'. setPattern pattern s = Inr s' \<and> arrays_agree s' \<and> particleCount s' = particleCount s"
  proof -
    from setPattern_closed[OF assms, of pattern]
    obtain s' ps where "setPattern pattern s = Inr s'" "originalPositions s' = ps"
      "targetPositions s' = ps" "positions s' = positions s" "particleCount s' = particleCount s"
      "length ps = particleCount s * 3"
      by blast
    then show ?thesis using lp by (auto simp add: arrays_agree_def)
  qed
  have col: "arrays_agree (setColors shade primary secondary s) \<and>
          particleCount (setColors shade primary secondary s) = particleCount s"
    using setColors_frame[of shade primary secondary s] lo lt lp by (simp add: arrays_agree_def)
  have ges: "\<exists>s'. updateGestureInfluence opn pos sens s = Inr s' \<and> arrays_agree s' \<and>
            particleCount s' = particleCount s"
  proof -
    from updateGestureInfluence_closed[OF lo lt, of opn pos sens]
    obtain s' where "updateGestureInfluence opn pos sens s = Inr s'"
      "length (targetPositions s') = particleCount s * 3"
      "originalPositions s' = originalPositions s" "positions s' = positions s"
      "particleCount s' = particleCount s"
      by blast
    then show ?thesis using lo lp by (auto simp add: arrays_agree_def)
  qed
  have ani: "\<exists>s'. animate s = Inr s' \<and> arrays_agree s' \<and> particleCount s' = particleCount s"
  proof -
    from animate_closed[OF assms]
    obtain s' where "animate s = Inr s'" "length (positions s') = particleCount s * 3"
      "targetPositions s' = targetPositions s" "originalPositions s' = originalPositions s"
      "particleCount s' = particleCount s"
      by blast
    then show ?thesis using lo lt by (auto simp add: arrays_agree_def)
  qed
  have res: "\<exists>s'. reset s = Inr s' \<and> arrays_agree s' \<and> particleCount s' = particleCount s"
  proof -
    from reset_closed[OF assms]
    obtain s' where "reset s = Inr s'" "targetPositions s' = originalPositions s"
      "originalPositions s' = originalPositions s" "positions s' = positions s"
      "particleCount s' = particleCount s"
      by blast
    then show ?thesis using lo lp by (auto simp add: arrays_agree_def)
  qed
  have spd: "arrays_agree (setAnimationSpeed speed s) \<and>
          particleCount (setAnimationSpeed speed s) = particleCount s"
    using assms by (simp add: arrays_agree_def setAnimationSpeed_def)
  show ?thesis
    by (intro conjI new cnt pat col[THEN conjunct1] col[THEN conjunct2] ges ani res
        spd[THEN conjunct1] spd[THEN conjunct2])
qed

text \<open>The single particle: resized to two particles, given a gesture, and animated.\<close>

theorem position_arrays_agree_witness:
  "arrays_agree tiny \<and>
   (\<exists>s'. setParticleCount no_shade 2 tiny = Inr s' \<and>
      length (originalPositions s') = 6 \<and> length (targetPositions s') = 6 \<and>
      length (positions s') = 6 \<and> particleCount s' = 2) \<and>
   (\<exists>s'. updateGestureInfluence 1 centre 1 tiny = Inr s' \<and>
      length (originalPositions s') = 3 \<and> length (targetPositions s') = 3 \<and>
      length (positions s') = 3) \<and>
   (\<exists>s'. animate tiny = Inr s' \<and>
      length (originalPositions s') = 3 \<and> length (targetPositions s') = 3 \<and>
      length (positions s') = 3)"
proof -
  have a: "arrays_agree tiny" by (simp add: arrays_agree_def tiny_def)
  have n: "particleCount tiny = 1" by (simp add: tiny_def)
  note inst = position_arrays_agree[OF a, of no_shade "\<lambda>k. 0" 2 Spiral 0 0 1 centre 1 1]
  from inst obtain s1 where s1: "setParticleCount no_shade 2 tiny = Inr s1" "arrays_agree s1"
    "particleCount s1 = 2" by blast
  from inst obtain s2 where s2: "updateGestureInfluence 1 centre 1 tiny = Inr s2" "arrays_agree s2"
    "particleCount s2 = particleCount tiny" by blast
  from inst obtain s3 where s3: "animate tiny = Inr s3" "arrays_agree s3"
    "particleCount s3 = particleCount tiny" by blast
  have e1: "\<exists>s'. setParticleCount no_shade 2 tiny = Inr s' \<and>
      length (originalPositions s') = 6 \<and> length (targetPositions s') = 6 \<and>
      length (positions s') = 6 \<and> particleCount s' = 2"
    using s1 by (auto simp add: arrays_agree_def)
  have e2: "\<exists>s'. updateGestureInfluence 1 centre 1 tiny = Inr s' \<and>
      length (originalPositions s') = 3 \<and> length (targetPositions s') = 3 \<and>
      length (positions s') = 3"
    using s2 n by (auto simp add: arrays_agree_def)
  have e3: "\<exists>s'. animate tiny = Inr s' \<and>
      length (originalPositions s') = 3 \<and> length (targetPositions s') = 3 \<and>
      length (positions s') = 3"
    using s3 n by (auto simp add: arrays_agree_def)
  show ?thesis by (intro conjI a e1 e2 e3)
qed

subsection \<open>What is deterministic in the generator\<close>

lemma generatePattern_two_draws_spiral:
  "generatePattern Spiral two_draws = ([2, - 15, 0], two_draws \<lparr> drawn := 2 \<rparr>)"
  by (simp add: generatePattern_def two_draws_def tiny_def patternPoint_def radius_def Let_def
      replicate_three)

lemma generatePattern_two_draws_spiral_again:
  "generatePattern Spiral (two_draws \<lparr> drawn := 2 \<rparr>) = ([3, - 15, 0], two_draws \<lparr> drawn := 4 \<rparr>)"
  by (simp add: generatePattern_def two_draws_def tiny_def patternPoint_def radius_def Let_def
      replicate_three)

lemma generatePattern_two_draws_dna:
  "generatePattern DNA two_draws = ([5.5, - 22.5, 0], two_draws \<lparr> drawn := 2 \<rparr>)"
  "generatePattern DNA (two_draws \<lparr> drawn := 2 \<rparr>) = ([6, - 22.5, 0], two_draws \<lparr> drawn := 4 \<rparr>)"
  by (simp_all add: generatePattern_def two_draws_def tiny_def patternPoint_def radius_def Let_def
      replicate_three)

lemma generatePattern_two_draws_wave:
  "generatePattern Wave two_draws = ([- 22.5, - 0.5, - 22.5], two_draws \<lparr> drawn := Suc 0 \<rparr>)"
  "generatePattern Wave (two_draws \<lparr> drawn := Suc 0 \<rparr>) = ([- 22.5, 0, - 22.5], two_draws \<lparr> drawn := 2 \<rparr>)"
  by (simp_all add: generatePattern_def two_draws_def tiny_def patternPoint_def radius_def Let_def
      replicate_three)

text \<open>
  Claim C2 as stated fails: spiral, wave and dna each add \<^verbatim>\<open>Math.random()\<close> jitter, so a
  second call with the same kind and count gives another array.  Here the random source
  returns 0 and then 0.5.
\<close>

theorem generator_not_deterministic:
  "fst (generatePattern Spiral (snd (generatePattern Spiral two_draws))) \<noteq>
     fst (generatePattern Spiral two_draws) \<and>
   fst (generatePattern Wave (snd (generatePattern Wave two_draws))) \<noteq>
     fst (generatePattern Wave two_draws) \<and>
   fst (generatePattern DNA (snd (generatePattern DNA two_draws))) \<noteq>
     fst (generatePattern DNA two_draws)"
  by (simp add: generatePattern_two_draws_spiral generatePattern_two_draws_spiral_again
      generatePattern_two_draws_dna generatePattern_two_draws_wave)

lemma fixed_coordinates:
  "fst (snd (fst (patternPoint Spiral n i rnd k))) = (real i / real n - 0.5) * radius * 2"
  "fst (snd (fst (patternPoint DNA n i rnd k))) = (real i / real n - 0.5) * radius * 3"
  "fst (fst (patternPoint Wave n i rnd k)) = (real (i mod 100) / 100 - 0.5) * radius * 3"
  "snd (snd (fst (patternPoint Wave n i rnd k))) =
     (real (i div 100) / (real n / 100) - 0.5) * radius * 3"
  by (simp_all add: patternPoint_def Let_def)

lemma generatePattern_nth:
  assumes "i < particleCount s"
  shows "fst (generatePattern pattern s) ! (i * 3) =
           fst (fst (patternPoint pattern (particleCount s) i (randoms s) (drawn s + draws pattern * i)))"
    "fst (generatePattern pattern s) ! (i * 3 + 1) =
           fst (snd (fst (patternPoint pattern (particleCount s) i (randoms s) (drawn s + draws pattern * i))))"
    "fst (generatePattern pattern s) ! (i * 3 + 2) =
           snd (snd (fst (patternPoint pattern (particleCount s) i (randoms s) (drawn s + draws pattern * i))))"
proof -
  from generatePattern_closed[of pattern s]
  obtain ps k where gp: "generatePattern pattern s = (ps, s \<lparr> drawn := k \<rparr>)"
    and tr: "\<forall>i < particleCount s.
        (ps ! (i * 3), ps ! (i * 3 + 1), ps ! (i * 3 + 2)) =
          fst (patternPoint pattern (particleCount s) i (randoms s) (drawn s + draws pattern * i))"
    by blast
  from tr assms have e: "(ps ! (i * 3), ps ! (i * 3 + 1), ps ! (i * 3 + 2)) =
          fst (patternPoint pattern (particleCount s) i (randoms s) (drawn s + draws pattern * i))"
    by blast
  show "fst (generatePattern pattern s) ! (i * 3) =
           fst (fst (patternPoint pattern (particleCount s) i (randoms s) (drawn s + draws pattern * i)))"
    unfolding gp e[symmetric] by simp
  show "fst (generatePattern pattern s) ! (i * 3 + 1) =
           fst (snd (fst (patternPoint pattern (particleCount s) i (randoms s) (drawn s + draws pattern * i))))"
    unfolding gp e[symmetric] by simp
  show "fst (generatePattern pattern s) ! (i * 3 + 2) =
           snd (snd (fst (patternPoint pattern (particleCount s) i (randoms s) (drawn s + draws pattern * i))))"
    unfolding gp e[symmetric] by simp
qed

lemma generatePattern_length:
  "length (fst (generatePattern pattern s)) = particleCount s * 3"
  using generatePattern_closed[of pattern s] by auto

lemma generatePattern_same_draws:
  assumes "particleCount s = particleCount s'"
    and "\<forall>j. randoms s (drawn s + j) = randoms s' (drawn s' + j)"
  shows "fst (generatePattern pattern s) = fst (generatePattern pattern s')"
proof (rule nth_equalityI)
  show "length (fst (generatePattern pattern s)) = length (fst (generatePattern pattern s'))"
    using assms(1) by (simp add: generatePattern_length)
next
  fix j assume "j < length (fst (generatePattern pattern s))"
  then have jb: "j < particleCount s * 3" by (simp add: generatePattern_length)
  let ?Q = "\<lambda>j. fst (generatePattern pattern s) ! j = fst (generatePattern pattern s') ! j"
  have pp: "fst (patternPoint pattern (particleCount s) i (randoms s) (drawn s + draws pattern * i)) =
      fst (patternPoint pattern (particleCount s') i (randoms s') (drawn s' + draws pattern * i))" for i
    unfolding assms(1)
  proof (rule fst_patternPoint_cong)
    fix j
    show "randoms s (drawn s + draws pattern * i + j) = randoms s' (drawn s' + draws pattern * i + j)"
      using assms(2) by (simp add: add.assoc)
  qed
  have "?Q (i * 3) \<and> ?Q (i * 3 + 1) \<and> ?Q (i * 3 + 2)" if "i < particleCount s" for i
  proof -
    have i': "i < particleCount s'" using that assms(1) by simp
    show ?thesis
      unfolding generatePattern_nth[OF that] generatePattern_nth[OF i'] pp by simp
  qed
  from all_coordinates[where Q = ?Q, OF this jb] show "?Q j" .
qed

text \<open>
  Claim C2, amended.  For spiral, wave and dna, two calls with the same particle count
  give arrays of the same length \<open>3 * particleCount\<close> that agree in the coordinates
  without jitter (\<open>y\<close> for spiral and dna, \<open>x\<close> and \<open>z\<close> for wave), and that are equal
  when both calls see the same random draws.
\<close>

theorem generator_deterministic_part:
  assumes "particleCount s = particleCount s'"
    and "pattern = Spiral \<or> pattern = Wave \<or> pattern = DNA"
  shows "length (fst (generatePattern pattern s)) = particleCount s * 3 \<and>
     length (fst (generatePattern pattern s')) = particleCount s * 3 \<and>
     (\<forall>i < particleCount s.
        (pattern = Spiral \<or> pattern = DNA \<longrightarrow>
           fst (generatePattern pattern s) ! (i * 3 + 1) = fst (generatePattern pattern s') ! (i * 3 + 1)) \<and>
        (pattern = Wave \<longrightarrow>
           fst (generatePattern pattern s) ! (i * 3) = fst (generatePattern pattern s') ! (i * 3) \<and>
           fst (generatePattern pattern s) ! (i * 3 + 2) = fst (generatePattern pattern s') ! (i * 3 + 2))) \<and>
     ((\<forall>j. randoms s (drawn s + j) = randoms s' (drawn s' + j)) \<longrightarrow>
        fst (generatePattern pattern s) = fst (generatePattern pattern s'))"
proof -
  have fixed: "(pattern = Spiral \<or> pattern = DNA \<longrightarrow>
           fst (generatePattern pattern s) ! (i * 3 + 1) = fst (generatePattern pattern s') ! (i * 3 + 1)) \<and>
        (pattern = Wave \<longrightarrow>
           fst (generatePattern pattern s) ! (i * 3) = fst (generatePattern pattern s') ! (i * 3) \<and>
           fst (generatePattern pattern s) ! (i * 3 + 2) = fst (generatePattern pattern s') ! (i * 3 + 2))"
    if "i < particleCount s" for i
  proof -
    have i': "i < particleCount s'" using that assms(1) by simp
    show ?thesis
      unfolding generatePattern_nth[OF that] generatePattern_nth[OF i']
      by (auto simp add: fixed_coordinates assms(1))
  qed
  show ?thesis
    using fixed generatePattern_same_draws[OF assms(1)] assms(1)
    by (simp add: generatePattern_length)
qed

text \<open>The spiral generated twice in a row: the \<open>y\<close> coordinate is \<open>-15\<close> both times.\<close>

theorem generator_deterministic_part_witness:
  "particleCount two_draws = particleCount (snd (generatePattern Spiral two_draws)) \<and>
   fst (generatePattern Spiral two_draws) ! 1 = - 15 \<and>
   fst (generatePattern Spiral (snd (generatePattern Spiral two_draws))) ! 1 = - 15 \<and>
   fst (generatePattern Spiral two_draws) ! (0 * 3 + 1) =
     fst (generatePattern Spiral (snd (generatePattern Spiral two_draws))) ! (0 * 3 + 1) \<and>
   length (fst (generatePattern Spiral (snd (generatePattern Spiral two_draws)))) = 3"
proof -
  have pc: "particleCount two_draws = particleCount (snd (generatePattern Spiral two_draws))"
    by (simp add: generatePattern_two_draws_spiral)
  have n: "particleCount two_draws = 1" by (simp add: two_draws_def tiny_def)
  from generator_deterministic_part[OF pc, of Spiral]
  have len: "length (fst (generatePattern Spiral (snd (generatePattern Spiral two_draws)))) =
      particleCount two_draws * 3"
    and y: "\<forall>i < particleCount two_draws.
        fst (generatePattern Spiral two_draws) ! (i * 3 + 1) =
        fst (generatePattern Spiral (snd (generatePattern Spiral two_draws))) ! (i * 3 + 1)"
    by simp_all
  from y n have y0: "fst (generatePattern Spiral two_draws) ! (0 * 3 + 1) =
     fst (generatePattern Spiral (snd (generatePattern Spiral two_draws))) ! (0 * 3 + 1)"
    by simp
  have v: "fst (generatePattern Spiral two_draws) ! 1 = - 15"
    "fst (generatePattern Spiral (snd (generatePattern Spiral two_draws))) ! 1 = - 15"
    by (simp_all add: generatePattern_two_draws_spiral generatePattern_two_draws_spiral_again)
  have l3: "length (fst (generatePattern Spiral (snd (generatePattern Spiral two_draws)))) = 3"
    using len n by simp
  show ?thesis by (intro conjI pc v y0 l3)
qed

end
